theory Spec2Isabelle
  imports Main "HOL-Library.Word" "HOL-Library.AList"
begin

section \<open>Algorithm and strategy model (strategy.go, lines 18-123)\<close>

text \<open>
  Go declares \<^verbatim>\<open>type Algorithm int\<close>, \<^verbatim>\<open>type StrategyType int\<close> and
  \<^verbatim>\<open>type Direction int\<close> and names some of their values with \<^verbatim>\<open>iota\<close>.
  A variable of such a type can hold any integer, and the code checks for that
  (\<^verbatim>\<open>IsValid\<close>, \<^verbatim>\<open>contains\<close>, the \<^verbatim>\<open>default\<close> branches), so the three types
  are integers here and the named values are constants.
\<close>

type_synonym Algorithm = int
type_synonym StrategyType = int
type_synonym Direction = int

named_theorems enum_defs \<open>values of the named constants\<close>

definition DEFLATE :: Algorithm where [enum_defs]: "DEFLATE = 0"
definition GZIP :: Algorithm where [enum_defs]: "GZIP = 1"
definition LZ4 :: Algorithm where [enum_defs]: "LZ4 = 2"
definition ZSTD :: Algorithm where [enum_defs]: "ZSTD = 3"

definition QAT :: StrategyType where [enum_defs]: "QAT = 0"
definition ISAL :: StrategyType where [enum_defs]: "ISAL = 1"
definition IAA :: StrategyType where [enum_defs]: "IAA = 2"
definition DEFAULT :: StrategyType where [enum_defs]: "DEFAULT = 3"

definition COMPRESS :: Direction where [enum_defs]: "COMPRESS = 0"
definition DECOMPRESS :: Direction where [enum_defs]: "DECOMPRESS = 1"

datatype QatMode = DIRECT | STREAM

definition MAX_QAT_BINDINGS :: nat where "MAX_QAT_BINDINGS = 8"
definition MAX_IAA_BINDINGS :: nat where "MAX_IAA_BINDINGS = 8"
definition DEFAULT_OUT_BUFFER_SZ :: nat where "DEFAULT_OUT_BUFFER_SZ = 1024 * 10"

definition IAA_ALGORITHMS :: "Algorithm list" where
  "IAA_ALGORITHMS = [DEFLATE, GZIP]"
definition QAT_ALGORITHMS :: "Algorithm list" where
  "QAT_ALGORITHMS = [DEFLATE, GZIP, ZSTD]"
definition ISAL_ALGORITHMS :: "Algorithm list" where
  "ISAL_ALGORITHMS = [GZIP]"
definition DEFAULT_ALGORITHMS :: "Algorithm list" where
  "DEFAULT_ALGORITHMS = [DEFLATE, LZ4, GZIP, ZSTD]"

text \<open>
  Go errors are compared by identity. The package's sentinel values and \<^verbatim>\<open>io.EOF\<close>
  are constructors; an error made on the spot by \<^verbatim>\<open>errors.New\<close> or \<^verbatim>\<open>fmt.Errorf\<close>
  is \<open>ErrorString\<close> with its text and is equal to no sentinel; \<open>External\<close> stands for
  every other error value of a codec library, a sink or a source.
\<close>

datatype error =
    ErrNotAvailable
  | ErrNotInstalled
  | ErrJobNotFound
  | ErrUnsupported
  | errNoWorkingStrategies
  | EOF
  | ErrorString string
  | External nat

definition isValid :: "Algorithm \<Rightarrow> bool" where
  "isValid alg = (alg = DEFLATE \<or> alg = GZIP \<or> alg = LZ4 \<or> alg = ZSTD)"

definition IsValid :: "StrategyType \<Rightarrow> bool" where
  "IsValid s = (s = QAT \<or> s = ISAL \<or> s = IAA \<or> s = DEFAULT)"

definition strategyBank :: "StrategyType list" where
  "strategyBank = [QAT, ISAL, IAA, DEFAULT]"

definition GetStrategies :: "StrategyType list" where
  "GetStrategies = strategyBank"

fun contains :: "Algorithm list \<Rightarrow> Algorithm \<Rightarrow> bool" where
  "contains [] algorithm = False"
| "contains (a # rest) algorithm = (if a = algorithm then True else contains rest algorithm)"

section \<open>Jobs and policies (strategy.go, lines 653-710, and the policy file)\<close>

text \<open>
  \<^verbatim>\<open>JobID\<close> is \<^verbatim>\<open>int64\<close>: a 64-bit word read as two's complement. A sink or source
  (\<^verbatim>\<open>io.Writer\<close>, \<^verbatim>\<open>io.Reader\<close>) is a handle, \<open>None\<close> for \<^verbatim>\<open>nil\<close>. The four
  handler objects of the Manager are named by \<open>Handler\<close>; the field \<^verbatim>\<open>h\<close> of a Job
  holds one of them or \<^verbatim>\<open>nil\<close>.
\<close>

type_synonym JobID = "64 word"
type_synonym byte = "8 word"
type_synonym stream = "nat option"

datatype Handler = QatH | IsalH | IaaH | FallbackH

record JobParams =
  jp_a :: Algorithm
  jp_level :: int
  jp_id :: JobID
  jp_JobType :: Direction
  jp_w :: stream
  jp_r :: stream

record Job =
  job_id :: JobID
  job_p :: "byte list"
  job_JobType :: Direction
  job_params :: JobParams
  job_w :: stream
  job_r :: stream
  job_h :: "Handler option"

record PolicyParameters =
  BufferSize :: int
  Strategies :: "StrategyType list"
  pp_JobParams :: JobParams

type_synonym PolicyFunc = "PolicyParameters \<Rightarrow> StrategyType list"

text \<open>The policy of package glidepack, the package of strategy.go (threshold 1500).\<close>

definition BufferSizePolicy :: PolicyFunc where
  "BufferSizePolicy params =
     (if BufferSize params < 1500 then [ISAL, IAA, QAT] else [QAT, IAA, ISAL])"

definition GetDefaultPolicy :: PolicyFunc where
  "GetDefaultPolicy = BufferSizePolicy"

section \<open>Job identities (strategy.go, lines 705-735)\<close>

text \<open>
  The package variables behind \<^verbatim>\<open>createJob\<close> and \<^verbatim>\<open>freeJobID\<close>. The mutex
  \<^verbatim>\<open>mu\<close> is taken and released inside each of the two functions on every path, so
  it is not part of the state. \<^verbatim>\<open>atomic.AddInt64\<close> wraps around, as \<open>+\<close> on
  \<open>64 word\<close> does, and returns the new value.
\<close>

record Globals =
  nextID :: "64 word"
  uniqueID :: "64 word"
  freeIDs :: "64 word list"

definition init_Globals :: Globals where
  "init_Globals = \<lparr>nextID = 0, uniqueID = 0, freeIDs = []\<rparr>"

definition zero_JobParams :: JobParams where
  "zero_JobParams = \<lparr>jp_a = 0, jp_level = 0, jp_id = 0, jp_JobType = 0,
     jp_w = None, jp_r = None\<rparr>"

text \<open>The composite literal \<^verbatim>\<open>&Job{id: JobID(id)}\<close>: every other field has its zero value.\<close>

definition new_Job :: "JobID \<Rightarrow> Job" where
  "new_Job i = \<lparr>job_id = i, job_p = [], job_JobType = 0, job_params = zero_JobParams,
     job_w = None, job_r = None, job_h = None\<rparr>"

definition createJob :: "Globals \<Rightarrow> Job \<times> Globals" where
  "createJob g =
     (if length (freeIDs g) > 0 then
        (let g1 = g\<lparr>uniqueID := 1\<rparr>;
             g2 = g1\<lparr>nextID := nextID g1 + 1\<rparr>
         in (new_Job (nextID g2), g2))
      else
        (let g1 = g\<lparr>uniqueID := 1\<rparr>;
             g2 = g1\<lparr>nextID := nextID g1 + uniqueID g1\<rparr>
         in (new_Job (nextID g2), g2)))"

definition freeJobID :: "JobID \<Rightarrow> Globals \<Rightarrow> Globals" where
  "freeJobID i g = g\<lparr>freeIDs := freeIDs g @ [i]\<rparr>"

text \<open>A history of calls to the two functions, and the identities it mints, in order.\<close>

datatype IdOp = CreateJob | FreeJobID JobID

fun run_ids :: "IdOp list \<Rightarrow> Globals \<Rightarrow> JobID list \<times> Globals" where
  "run_ids [] g = ([], g)"
| "run_ids (CreateJob # ops) g =
     (let (job, g1) = createJob g;
          (ids, g2) = run_ids ops g1
      in (job_id job # ids, g2))"
| "run_ids (FreeJobID i # ops) g = run_ids ops (freeJobID i g)"

fun creations :: "IdOp list \<Rightarrow> nat" where
  "creations [] = 0"
| "creations (CreateJob # ops) = Suc (creations ops)"
| "creations (FreeJobID i # ops) = creations ops"

section \<open>The world outside the package\<close>

text \<open>
  The codec libraries, the sinks and the sources are not part of the package. Each call
  into them is a call of an oracle that reads and updates a world \<open>'w\<close> of which nothing
  is assumed, and returns the byte count and the error of the call (\<open>None\<close> for
  \<^verbatim>\<open>nil\<close>). A library call is taken to return, also when its receiver or its
  sink is \<^verbatim>\<open>nil\<close>; a constructor that cannot fail (\<^verbatim>\<open>lz4.NewWriter\<close>,
  \<^verbatim>\<open>qatzip.NewWriter\<close>, \<^verbatim>\<open>ixl.NewGzipWriter\<close>) is not an oracle call. \<open>ExtCall\<close> names the calls made while serving a request,
  \<open>CloseCall\<close> those made while releasing a job.
\<close>

datatype ExtCall =
    GzipNewWriterLevel | GzipWriterWrite | GzipWriterClose
  | Lz4WriterApply | Lz4WriterWrite | Lz4WriterClose
  | ZstdNewWriter | ZstdWriterWrite | ZstdWriterClose
  | GzipNewReader | GzipReaderRead | GzipReaderClose
  | Lz4ReaderRead
  | ZstdNewReader | ZstdReaderRead | ZstdReaderClose
  | IxlNewDeflateWriter | IxlWriterWrite | IxlNewInflate | IxlInflateRead
  | IsalNewWriterLevel | IsalWriterWrite | IsalNewReader | IsalReaderRead
  | QatNewReader | QatNewQzBinding
  | QatWriterApply | QatWriterApplyGzip | QatReaderApply | QatReaderApplyGzip
  | QatWriterWrite | QatReaderRead

datatype CloseCall =
    IxlWriterClose | IsalWriterClose | IsalReaderClose
  | QatWriterClose | QatReaderClose | QatBindingClose

type_synonym ext_result = "int \<times> error option"

record 'w Env =
  ixl_Ready :: "'w \<Rightarrow> bool"
  isal_Ready :: "'w \<Rightarrow> bool"
  codec :: "ExtCall \<Rightarrow> Job \<Rightarrow> 'w \<Rightarrow> ext_result \<times> 'w"
  closer :: "CloseCall \<Rightarrow> JobID \<Rightarrow> 'w \<Rightarrow> error option \<times> 'w"

text \<open>
  A call of the package returns, or panics (a \<^verbatim>\<open>nil\<close> pointer is dereferenced), or
  never returns because it locks a mutex that is held and that nothing will release.
\<close>

datatype 'a result = Ret 'a | Panic | Deadlock

text \<open>
  A Go map is an association list with distinct keys: \<^verbatim>\<open>m[k] = v\<close> is
  \<open>AList.update\<close>, \<^verbatim>\<open>delete(m, k)\<close> is \<open>AList.delete\<close>, \<^verbatim>\<open>m[k]\<close> is
  \<open>map_of\<close> and \<^verbatim>\<open>len(m)\<close> is \<open>length\<close>.
\<close>

type_synonym 'v gomap = "(JobID \<times> 'v) list"

section \<open>The software handler (strategy.go, lines 130-252)\<close>

record DefaultHandler =
  default_algs :: "Algorithm list"

definition NewDefaultHandler :: DefaultHandler where
  "NewDefaultHandler = \<lparr>default_algs = DEFAULT_ALGORITHMS\<rparr>"

text \<open>
  Each \<^verbatim>\<open>case\<close> of the compress switch has one shape: make the encoder (an error
  there gives \<^verbatim>\<open>ErrUnsupported\<close>), defer its \<^verbatim>\<open>Close\<close>, write, close. The
  deferred \<^verbatim>\<open>Close\<close> runs on every return after the \<^verbatim>\<open>defer\<close> statement.
\<close>

definition deferred_Close :: "'w Env \<Rightarrow> ExtCall \<Rightarrow> Job \<Rightarrow> ext_result \<times> 'w \<Rightarrow> ext_result \<times> 'w" where
  "deferred_Close env cl job rw = (fst rw, snd (codec env cl job (snd rw)))"

definition default_compress ::
  "'w Env \<Rightarrow> ExtCall \<Rightarrow> ExtCall \<Rightarrow> ExtCall \<Rightarrow> Job \<Rightarrow> 'w \<Rightarrow> ext_result \<times> 'w" where
  "default_compress env mk wr cl job w =
     (let (r0, w0) = codec env mk job w in
      if snd r0 \<noteq> None then ((0, Some ErrUnsupported), w0)
      else
        let (r1, w1) = codec env wr job w0 in
        if snd r1 \<noteq> None then deferred_Close env cl job ((fst r1, snd r1), w1)
        else
          let (r2, w2) = codec env cl job w1 in
          if snd r2 \<noteq> None then deferred_Close env cl job ((fst r1, snd r2), w2)
          else deferred_Close env cl job ((fst r1, None), w2))"

definition DefaultHandler_Request ::
  "'w Env \<Rightarrow> Job \<Rightarrow> DefaultHandler \<Rightarrow> 'w \<Rightarrow> ext_result \<times> 'w" where
  "DefaultHandler_Request env job h w =
     (let alg = jp_a (job_params job); dir = jp_JobType (job_params job) in
      if \<not> contains (default_algs h) alg then ((0, Some ErrUnsupported), w)
      else if dir = COMPRESS then
        (if alg = GZIP then
           default_compress env GzipNewWriterLevel GzipWriterWrite GzipWriterClose job w
         else if alg = LZ4 then
           default_compress env Lz4WriterApply Lz4WriterWrite Lz4WriterClose job w
         else if alg = ZSTD then
           default_compress env ZstdNewWriter ZstdWriterWrite ZstdWriterClose job w
         else ((0, Some (ErrorString ''unsupported compression algorithm'')), w))
      else if dir = DECOMPRESS then
        (if alg = GZIP then
           (let (r0, w0) = codec env GzipNewReader job w in
            if snd r0 \<noteq> None then ((0, snd r0), w0)
            else
              let (r1, w1) = codec env GzipReaderRead job w0 in
              if snd r1 \<noteq> None then
                deferred_Close env GzipReaderClose job ((fst r1, snd r1), w1)
              else
                let (r2, w2) = codec env GzipReaderClose job w1 in
                if snd r2 \<noteq> None then
                  deferred_Close env GzipReaderClose job ((fst r1, snd r2), w2)
                else deferred_Close env GzipReaderClose job ((fst r1, None), w2))
         else if alg = LZ4 then
           (let (r1, w1) = codec env Lz4ReaderRead job w in
            if snd r1 \<noteq> None then ((fst r1, snd r1), w1) else ((fst r1, None), w1))
         else if alg = ZSTD then
           (let (r0, w0) = codec env ZstdNewReader job w in
            if snd r0 \<noteq> None then ((0, snd r0), w0)
            else
              let (r1, w1) = codec env ZstdReaderRead job w0 in
              if snd r1 \<noteq> None then
                deferred_Close env ZstdReaderClose job ((fst r1, snd r1), w1)
              else deferred_Close env ZstdReaderClose job ((fst r1, None), w1))
         else ((0, Some (ErrorString ''unsupported decompression algorithm'')), w))
      else ((0, None), w))"

definition DefaultHandler_Release :: "JobID \<Rightarrow> DefaultHandler \<Rightarrow> error option" where
  "DefaultHandler_Release i h = None"

section \<open>The IAA handler (strategy.go, lines 254-326)\<close>

text \<open>
  The values of the two maps are sessions of the ixl library, which live in the world;
  the maps record which jobs have one. \<open>iaa_jobsLock\<close> is \<open>True\<close> while the mutex is
  held: \<^verbatim>\<open>Request\<close> returns on several paths without unlocking it.
\<close>

record IAAHandler =
  iaa_jobs :: "unit gomap"
  iaa_readjobs :: "unit gomap"
  iaa_jobsLock :: bool
  iaa_algs :: "Algorithm list"

definition NewIAAHandler :: IAAHandler where
  "NewIAAHandler = \<lparr>iaa_jobs = [], iaa_readjobs = [], iaa_jobsLock = False,
     iaa_algs = IAA_ALGORITHMS\<rparr>"

definition IAAHandler_Request ::
  "'w Env \<Rightarrow> Job \<Rightarrow> IAAHandler \<Rightarrow> 'w \<Rightarrow> ext_result result \<times> IAAHandler \<times> 'w" where
  "IAAHandler_Request env job h w =
     (let alg = jp_a (job_params job); dir = jp_JobType (job_params job) in
      if \<not> ixl_Ready env w then (Ret (0, Some ErrNotInstalled), h, w)
      else if \<not> contains (iaa_algs h) alg then (Ret (0, Some ErrUnsupported), h, w)
      else if iaa_jobsLock h then (Deadlock, h, w)
      else
        let h1 = h\<lparr>iaa_jobsLock := True\<rparr> in
        if length (iaa_jobs h1) \<ge> MAX_IAA_BINDINGS then
          (Ret (0, Some ErrNotAvailable), h1\<lparr>iaa_jobsLock := False\<rparr>, w)
        else if dir = COMPRESS then
          (if alg = DEFLATE then
             (let (r0, w0) = codec env IxlNewDeflateWriter job w in
              if snd r0 \<noteq> None then (Ret (0, snd r0), h1, w0)
              else
                let h2 = h1\<lparr>iaa_jobs := AList.update (job_id job) () (iaa_jobs h1)\<rparr>;
                    h3 = h2\<lparr>iaa_jobsLock := False\<rparr>;
                    (r1, w1) = codec env IxlWriterWrite job w0
                in (Ret r1, h3, w1))
           else if alg = GZIP then
             (let h2 = h1\<lparr>iaa_jobs := AList.update (job_id job) () (iaa_jobs h1)\<rparr>;
                  h3 = h2\<lparr>iaa_jobsLock := False\<rparr>;
                  (r1, w1) = codec env IxlWriterWrite job w
              in (Ret r1, h3, w1))
           else (Ret (0, Some (ErrorString ''does not support algorithm'')), h1, w))
        else if dir = DECOMPRESS then
          (if alg = DEFLATE \<or> alg = GZIP then
             (let (r0, w0) = codec env IxlNewInflate job w in
              if snd r0 \<noteq> None then (Ret (0, snd r0), h1, w0)
              else
                let h2 = h1\<lparr>iaa_readjobs := AList.update (job_id job) () (iaa_readjobs h1)\<rparr>;
                    h3 = h2\<lparr>iaa_jobsLock := False\<rparr>;
                    (r1, w1) = codec env IxlInflateRead job w0
                in (Ret r1, h3, w1))
           else (Ret (0, Some (ErrorString ''does not support algorithm'')), h1, w))
        else (Ret (0, None), h1, w))"

definition IAAHandler_Release ::
  "'w Env \<Rightarrow> JobID \<Rightarrow> IAAHandler \<Rightarrow> 'w \<Rightarrow> error option result \<times> IAAHandler \<times> 'w" where
  "IAAHandler_Release env i h w =
     (case map_of (iaa_jobs h) i of
        None \<Rightarrow> (Ret (Some (ErrorString ''could not find the job'')), h, w)
      | Some u \<Rightarrow>
          let (err, w1) = closer env IxlWriterClose i w in
          if iaa_jobsLock h then (Deadlock, h, w1)
          else (Ret err, h\<lparr>iaa_jobs := AList.delete i (iaa_jobs h)\<rparr>, w1))"

section \<open>The ISA-L handler (strategy.go, lines 328-408)\<close>

record ISALHandler =
  isal_jobs :: "unit gomap"
  isal_readjobs :: "unit gomap"
  isal_algs :: "Algorithm list"

definition NewISALHandler :: ISALHandler where
  "NewISALHandler = \<lparr>isal_jobs = [], isal_readjobs = [], isal_algs = ISAL_ALGORITHMS\<rparr>"

definition ISALHandler_Request ::
  "'w Env \<Rightarrow> Job \<Rightarrow> ISALHandler \<Rightarrow> 'w \<Rightarrow> ext_result \<times> ISALHandler \<times> 'w" where
  "ISALHandler_Request env job h w =
     (let alg = jp_a (job_params job); dir = jp_JobType (job_params job) in
      if \<not> isal_Ready env w then ((0, Some ErrNotInstalled), h, w)
      else if \<not> contains (isal_algs h) alg then ((0, Some ErrUnsupported), h, w)
      else if dir = COMPRESS then
        (let (r0, w0) =
           (case map_of (isal_jobs h) (job_id job) of
              Some val \<Rightarrow> ((0, None), w)
            | None \<Rightarrow> codec env IsalNewWriterLevel job w)
         in
         if snd r0 \<noteq> None then ((0, Some ErrUnsupported), h, w0)
         else
           let h1 = h\<lparr>isal_jobs := AList.update (job_id job) () (isal_jobs h)\<rparr>;
               (r1, w1) = codec env IsalWriterWrite job w0
           in (r1, h1, w1))
      else if dir = DECOMPRESS then
        (let (r0, w0) =
           (case map_of (isal_readjobs h) (job_id job) of
              Some val \<Rightarrow> ((0, None), w)
            | None \<Rightarrow> codec env IsalNewReader job w)
         in
         if snd r0 \<noteq> None then ((0, snd r0), h, w0)
         else
           let h1 = h\<lparr>isal_readjobs := AList.update (job_id job) () (isal_readjobs h)\<rparr>;
               (r1, w1) = codec env IsalReaderRead job w0
           in (r1, h1, w1))
      else ((0, None), h, w))"

definition ISALHandler_Release ::
  "'w Env \<Rightarrow> JobID \<Rightarrow> ISALHandler \<Rightarrow> 'w \<Rightarrow> error option \<times> ISALHandler \<times> 'w" where
  "ISALHandler_Release env i h w =
     (let writematch = (map_of (isal_jobs h) i \<noteq> None);
          readmatch = (map_of (isal_readjobs h) i \<noteq> None)
      in
      if \<not> writematch \<and> \<not> readmatch then
        (Some (ErrorString ''could not find the job''), h, w)
      else
        let (err1, h1, w1) =
              (if writematch then
                 (let (e, w') = closer env IsalWriterClose i w in
                  (e, h\<lparr>isal_jobs := AList.delete i (isal_jobs h)\<rparr>, w'))
               else (None, h, w));
            (err2, h2, w2) =
              (if readmatch then
                 (let (e, w') = closer env IsalReaderClose i w1 in
                  (e, h1\<lparr>isal_readjobs := AList.delete i (isal_readjobs h1)\<rparr>, w'))
               else (err1, h1, w1))
        in (err2, h2, w2))"

section \<open>The QAT handler (strategy.go, lines 410-620)\<close>

text \<open>
  A \<^verbatim>\<open>QATJob\<close> holds pointers: \<open>qj_b\<close>, \<open>qj_w\<close> and \<open>qj_r\<close> say which of them are
  not \<^verbatim>\<open>nil\<close>; \<open>qj_job\<close> is the identity of the Job that \<^verbatim>\<open>job\<close> points to, the
  one field of it that the handler reads by the calls modelled here; \<open>qj_outBuf\<close> is
  the length of \<^verbatim>\<open>outBuf\<close>. The mutex of this handler is released by \<^verbatim>\<open>defer\<close> in
  both functions that take it, so it is free between calls and is not part of the state.
  \<^verbatim>\<open>RequestStream\<close>, which nothing calls, is left out, and so is \<^verbatim>\<open>GetQATSymbol\<close>,
  whose result goes to the library only.
\<close>

record QATJob =
  qj_outBuf :: nat
  qj_b :: bool
  qj_w :: bool
  qj_r :: bool
  qj_job :: JobID
  qj_mode :: QatMode

record QatHandler =
  qat_jobs :: "QATJob gomap"
  qat_algs :: "Algorithm list"

definition NewQATHandler :: QatHandler where
  "NewQATHandler = \<lparr>qat_jobs = [], qat_algs = QAT_ALGORITHMS\<rparr>"

definition ready :: "QatHandler \<Rightarrow> bool" where
  "ready h = True"

text \<open>\<^verbatim>\<open>newQatJob\<close> returns the new binding (\<open>None\<close> for \<^verbatim>\<open>nil\<close>) and an error.\<close>

definition bind_QATJob ::
  "Job \<Rightarrow> QATJob \<Rightarrow> QatHandler \<Rightarrow> 'w \<Rightarrow> (QATJob option \<times> error option) \<times> QatHandler \<times> 'w" where
  "bind_QATJob job q h w =
     ((Some q, None), h\<lparr>qat_jobs := AList.update (job_id job) q (qat_jobs h)\<rparr>, w)"

definition newQatJob ::
  "'w Env \<Rightarrow> Job \<Rightarrow> QatMode \<Rightarrow> QatHandler \<Rightarrow> 'w
     \<Rightarrow> (QATJob option \<times> error option) \<times> QatHandler \<times> 'w" where
  "newQatJob env job mode h w =
     (let blank = \<lparr>qj_outBuf = DEFAULT_OUT_BUFFER_SZ, qj_b = False, qj_w = False, qj_r = False,
                    qj_job = job_id job, qj_mode = mode\<rparr> in
      if length (qat_jobs h) \<ge> MAX_QAT_BINDINGS then ((None, Some ErrNotAvailable), h, w)
      else
        (case mode of
           DIRECT \<Rightarrow>
             (if job_w job \<noteq> None then bind_QATJob job (blank\<lparr>qj_w := True\<rparr>) h w
              else if job_r job \<noteq> None then
                (let (r0, w0) = codec env QatNewReader job w in
                 if snd r0 \<noteq> None then ((None, snd r0), h, w0)
                 else bind_QATJob job (blank\<lparr>qj_r := True\<rparr>) h w0)
              else bind_QATJob job blank h w)
         | STREAM \<Rightarrow>
             (let (r0, w0) = codec env QatNewQzBinding job w in
              if snd r0 \<noteq> None then ((None, snd r0), h, w0)
              else bind_QATJob job (blank\<lparr>qj_b := True\<rparr>) h w0)))"

text \<open>
  \<^verbatim>\<open>findJob\<close> walks the map in an order that Go leaves open; the order of the list
  stands for it. The result does not depend on the order when at most one binding
  belongs to the job, as is the case for the bindings \<^verbatim>\<open>newQatJob\<close> makes.
\<close>

definition findJob :: "QatHandler \<Rightarrow> JobID \<Rightarrow> error + QATJob" where
  "findJob h i =
     (case List.find (\<lambda>kq. qj_job (snd kq) = i) (qat_jobs h) of
        Some kq \<Rightarrow> Inr (snd kq)
      | None \<Rightarrow> Inl ErrJobNotFound)"

text \<open>
  Lines 482-503 of \<^verbatim>\<open>Request\<close>: the write or the read on the binding. \<open>err\<close> is the
  value of the result variable \<^verbatim>\<open>err\<close> when control reaches line 482.
\<close>

definition qat_transfer ::
  "'w Env \<Rightarrow> Job \<Rightarrow> error option \<Rightarrow> QatHandler \<Rightarrow> 'w \<Rightarrow> ext_result result \<times> QatHandler \<times> 'w" where
  "qat_transfer env job err h w =
     (let dir = jp_JobType (job_params job) in
      if dir = COMPRESS then
        (let (r1, w1) = codec env QatWriterWrite job w in
         if snd r1 \<noteq> None then (Ret (0, snd r1), h, w1) else (Ret (fst r1, None), h, w1))
      else if dir = DECOMPRESS then
        (let (r1, w1) = codec env QatReaderRead job w in
         if snd r1 \<noteq> None \<and> snd r1 \<noteq> Some EOF then (Ret (0, snd r1), h, w1)
         else (Ret r1, h, w1))
      else (Ret (0, err), h, w))"

text \<open>
  When the job has no binding, \<^verbatim>\<open>Request\<close> calls \<^verbatim>\<open>newQatJob\<close> and then uses
  the binding before it looks at the error: with a \<^verbatim>\<open>nil\<close> binding the field access
  \<^verbatim>\<open>qat.w\<close> or \<^verbatim>\<open>qat.r\<close> panics.
\<close>

definition QatHandler_Request ::
  "'w Env \<Rightarrow> Job \<Rightarrow> QatHandler \<Rightarrow> 'w \<Rightarrow> ext_result result \<times> QatHandler \<times> 'w" where
  "QatHandler_Request env job h w =
     (let alg = jp_a (job_params job); dir = jp_JobType (job_params job) in
      if \<not> ready h then (Ret (0, Some ErrNotInstalled), h, w)
      else if \<not> contains (qat_algs h) alg then (Ret (0, Some ErrUnsupported), h, w)
      else
        (case map_of (qat_jobs h) (job_id job) of
           Some val \<Rightarrow> qat_transfer env job None h w
         | None \<Rightarrow>
             (let ((qat, err), h1, w1) = newQatJob env job DIRECT h w in
              if dir = COMPRESS then
                (case qat of
                   None \<Rightarrow> (Panic, h1, w1)
                 | Some q \<Rightarrow>
                     (let (r2, w2) = codec env QatWriterApply job w1 in
                      if snd r2 \<noteq> None then (Ret (0, Some ErrUnsupported), h1, w2)
                      else
                        let (r3, w3) =
                              (if alg = GZIP then codec env QatWriterApplyGzip job w2
                               else ((0, None), w2))
                        in
                        if snd r3 \<noteq> None then (Ret (0, snd r3), h1, w3)
                        else if err \<noteq> None then (Ret (0, err), h1, w3)
                        else qat_transfer env job err h1 w3))
              else if dir = DECOMPRESS then
                (case qat of
                   None \<Rightarrow> (Panic, h1, w1)
                 | Some q \<Rightarrow>
                     (let (r2, w2) = codec env QatReaderApply job w1 in
                      if snd r2 \<noteq> None then (Ret (0, Some ErrUnsupported), h1, w2)
                      else
                        let (r3, w3) =
                              (if alg = GZIP then codec env QatReaderApplyGzip job w2
                               else ((0, None), w2))
                        in
                        if snd r3 \<noteq> None then (Ret (0, snd r3), h1, w3)
                        else qat_transfer env job err h1 w3))
              else qat_transfer env job err h1 w1)))"

definition QatHandler_Release ::
  "'w Env \<Rightarrow> JobID \<Rightarrow> QatHandler \<Rightarrow> 'w \<Rightarrow> error option \<times> QatHandler \<times> 'w" where
  "QatHandler_Release env i h w =
     (case findJob h i of
        Inl e \<Rightarrow> (Some e, h, w)
      | Inr job \<Rightarrow>
          let (err, w1) =
                (case qj_mode job of
                   DIRECT \<Rightarrow>
                     (if qj_w job then closer env QatWriterClose i w
                      else if qj_r job then closer env QatReaderClose i w
                      else (None, w))
                 | STREAM \<Rightarrow> closer env QatBindingClose i w)
          in
          if err \<noteq> None then (err, h, w1)
          else (None, h\<lparr>qat_jobs := AList.delete i (qat_jobs h)\<rparr>, w1))"

section \<open>The Manager (strategy.go, lines 639-802)\<close>

record Manager =
  strategies :: "StrategyType list"
  GlobalPolicy :: PolicyFunc
  qat :: QatHandler
  isal :: ISALHandler
  iaa :: IAAHandler
  fallback :: DefaultHandler
  jobs :: "Job gomap"

definition initManager :: Manager where
  "initManager = \<lparr>strategies = GetStrategies, GlobalPolicy = GetDefaultPolicy,
     qat = NewQATHandler, isal = NewISALHandler, iaa = NewIAAHandler,
     fallback = NewDefaultHandler, jobs = []\<rparr>"

text \<open>The state of the program: the one Manager, the package variables, the world.\<close>

record 'w State =
  mgr :: Manager
  glob :: Globals
  world :: 'w

definition getHandler :: "StrategyType \<Rightarrow> Handler" where
  "getHandler s =
     (if s = QAT then QatH else if s = IAA then IaaH else if s = ISAL then IsalH
      else FallbackH)"

text \<open>The method calls \<^verbatim>\<open>h.Request(job)\<close> and \<^verbatim>\<open>h.Release(id)\<close> through the interface.\<close>

definition handler_Request ::
  "'w Env \<Rightarrow> Handler \<Rightarrow> Job \<Rightarrow> 'w State \<Rightarrow> ext_result result \<times> 'w State" where
  "handler_Request env h job s =
     (case h of
        QatH \<Rightarrow>
          (let (r, hq, w) = QatHandler_Request env job (qat (mgr s)) (world s) in
           (r, s\<lparr>mgr := (mgr s)\<lparr>qat := hq\<rparr>, world := w\<rparr>))
      | IsalH \<Rightarrow>
          (let (r, hi, w) = ISALHandler_Request env job (isal (mgr s)) (world s) in
           (Ret r, s\<lparr>mgr := (mgr s)\<lparr>isal := hi\<rparr>, world := w\<rparr>))
      | IaaH \<Rightarrow>
          (let (r, ha, w) = IAAHandler_Request env job (iaa (mgr s)) (world s) in
           (r, s\<lparr>mgr := (mgr s)\<lparr>iaa := ha\<rparr>, world := w\<rparr>))
      | FallbackH \<Rightarrow>
          (let (r, w) = DefaultHandler_Request env job (fallback (mgr s)) (world s) in
           (Ret r, s\<lparr>world := w\<rparr>)))"

definition handler_Release ::
  "'w Env \<Rightarrow> Handler \<Rightarrow> JobID \<Rightarrow> 'w State \<Rightarrow> error option result \<times> 'w State" where
  "handler_Release env h i s =
     (case h of
        QatH \<Rightarrow>
          (let (r, hq, w) = QatHandler_Release env i (qat (mgr s)) (world s) in
           (Ret r, s\<lparr>mgr := (mgr s)\<lparr>qat := hq\<rparr>, world := w\<rparr>))
      | IsalH \<Rightarrow>
          (let (r, hi, w) = ISALHandler_Release env i (isal (mgr s)) (world s) in
           (Ret r, s\<lparr>mgr := (mgr s)\<lparr>isal := hi\<rparr>, world := w\<rparr>))
      | IaaH \<Rightarrow>
          (let (r, ha, w) = IAAHandler_Release env i (iaa (mgr s)) (world s) in
           (r, s\<lparr>mgr := (mgr s)\<lparr>iaa := ha\<rparr>, world := w\<rparr>))
      | FallbackH \<Rightarrow> (Ret (DefaultHandler_Release i (fallback (mgr s))), s))"

text \<open>
  Lines 795-797 and 756-758: release the job on its handler (the error is dropped),
  delete it from the registry, put its identity on the free list.
\<close>

definition release_and_deregister ::
  "'w Env \<Rightarrow> Handler \<Rightarrow> JobID \<Rightarrow> 'w State \<Rightarrow> unit result \<times> 'w State" where
  "release_and_deregister env h i s =
     (case handler_Release env h i s of
        (Ret e, s1) \<Rightarrow>
          (Ret (), s1\<lparr>mgr := (mgr s1)\<lparr>jobs := AList.delete i (jobs (mgr s1))\<rparr>,
                      glob := freeJobID i (glob s1)\<rparr>)
      | (Panic, s1) \<Rightarrow> (Panic, s1)
      | (Deadlock, s1) \<Rightarrow> (Deadlock, s1))"

type_synonym submit_result = "int \<times> JobID \<times> error option"

text \<open>The loop of lines 776-801 over the rest of the policy's list.\<close>

fun submit_loop ::
  "'w Env \<Rightarrow> Job \<Rightarrow> StrategyType list \<Rightarrow> 'w State \<Rightarrow> submit_result result \<times> 'w State" where
  "submit_loop env job [] s = (Ret (0, job_id job, Some errNoWorkingStrategies), s)"
| "submit_loop env job (strategy # priority) s =
     (if \<not> IsValid strategy then
        (Ret (0, job_id job, Some (ErrorString ''invalid strategy given by the policy'')), s)
      else
        let h = getHandler strategy in
        (case handler_Request env h job s of
           (Ret (n, err), s1) \<Rightarrow>
             if err = Some ErrNotAvailable \<or> err = Some ErrUnsupported then
               submit_loop env job priority s1
             else if err = Some ErrNotInstalled then
               submit_loop env job priority s1
             else if err \<noteq> None \<and> err \<noteq> Some EOF then
               (Ret (0, job_id job, err), s1)
             else
               let job1 = job\<lparr>job_h := Some h\<rparr>;
                   s2 = s1\<lparr>mgr := (mgr s1)\<lparr>jobs :=
                          AList.update (job_id job1) job1 (jobs (mgr s1))\<rparr>\<rparr>
               in
               if jp_JobType (job_params job1) = DECOMPRESS \<and> err = Some EOF
                  \<or> jp_JobType (job_params job1) = COMPRESS \<and> err = None
               then
                 (case release_and_deregister env h (job_id job1) s2 of
                    (Ret u, s3) \<Rightarrow> (Ret (n, job_id job1, err), s3)
                  | (Panic, s3) \<Rightarrow> (Panic, s3)
                  | (Deadlock, s3) \<Rightarrow> (Deadlock, s3))
               else (Ret (n, job_id job1, err), s2)
         | (Panic, s1) \<Rightarrow> (Panic, s1)
         | (Deadlock, s1) \<Rightarrow> (Deadlock, s1)))"

text \<open>Lines 763-775: the parameters for the policy and the new Job.\<close>

definition policy_params :: "byte list \<Rightarrow> JobParams \<Rightarrow> 'w State \<Rightarrow> PolicyParameters" where
  "policy_params p jp s =
     \<lparr>BufferSize = int (length p), Strategies = strategies (mgr s), pp_JobParams = jp\<rparr>"

definition fresh_job :: "byte list \<Rightarrow> JobParams \<Rightarrow> 'w State \<Rightarrow> Job" where
  "fresh_job p jp s =
     (fst (createJob (glob s)))\<lparr>job_p := p, job_params := jp, job_w := jp_w jp,
        job_r := jp_r jp\<rparr>"

definition submit_new ::
  "'w Env \<Rightarrow> byte list \<Rightarrow> JobParams \<Rightarrow> PolicyFunc \<Rightarrow> 'w State
     \<Rightarrow> submit_result result \<times> 'w State" where
  "submit_new env p jp policy s =
     (let params = policy_params p jp s;
          job = fresh_job p jp s;
          s1 = s\<lparr>glob := snd (createJob (glob s))\<rparr>;
          priority = policy params
      in submit_loop env job priority s1)"

text \<open>
  Lines 751-761. The registry holds pointers, so the assignment to \<^verbatim>\<open>currentJob.p\<close>
  changes the registered Job. A Job without a handler cannot be called.
\<close>

definition submit_continue ::
  "'w Env \<Rightarrow> byte list \<Rightarrow> Job \<Rightarrow> JobParams \<Rightarrow> 'w State \<Rightarrow> submit_result result \<times> 'w State" where
  "submit_continue env p registered jp s =
     (let currentJob = registered\<lparr>job_p := p\<rparr>;
          s1 = s\<lparr>mgr := (mgr s)\<lparr>jobs := AList.update (jp_id jp) currentJob (jobs (mgr s))\<rparr>\<rparr>
      in
      case job_h currentJob of
        None \<Rightarrow> (Panic, s1)
      | Some h \<Rightarrow>
          (case handler_Request env h currentJob s1 of
             (Ret (n, err), s2) \<Rightarrow>
               if err = Some EOF then
                 (case release_and_deregister env h (job_id currentJob) s2 of
                    (Ret u, s3) \<Rightarrow> (Ret (n, job_id currentJob, err), s3)
                  | (Panic, s3) \<Rightarrow> (Panic, s3)
                  | (Deadlock, s3) \<Rightarrow> (Deadlock, s3))
               else (Ret (n, job_id currentJob, err), s2)
           | (Panic, s2) \<Rightarrow> (Panic, s2)
           | (Deadlock, s2) \<Rightarrow> (Deadlock, s2)))"

definition SubmitWithPolicy ::
  "'w Env \<Rightarrow> byte list \<Rightarrow> JobParams \<Rightarrow> PolicyFunc \<Rightarrow> 'w State
     \<Rightarrow> submit_result result \<times> 'w State" where
  "SubmitWithPolicy env p jp policy s =
     (case map_of (jobs (mgr s)) (jp_id jp) of
        Some registered \<Rightarrow>
          if jp_JobType jp = DECOMPRESS then submit_continue env p registered jp s
          else submit_new env p jp policy s
      | None \<Rightarrow> submit_new env p jp policy s)"

definition SubmitJob ::
  "'w Env \<Rightarrow> byte list \<Rightarrow> JobParams \<Rightarrow> 'w State \<Rightarrow> submit_result result \<times> 'w State" where
  "SubmitJob env p jp s = SubmitWithPolicy env p jp (GlobalPolicy (mgr s)) s"

section \<open>Notions used to state the properties\<close>

text \<open>The errors on which the loop goes on to the next candidate (lines 783-787).\<close>

definition skip_class :: "error set" where
  "skip_class = {ErrNotAvailable, ErrUnsupported, ErrNotInstalled}"

text \<open>
  \<open>skip_all env job cs s\<close> runs the requests of the candidates \<open>cs\<close> in order, each in
  the state the one before left: it is the final state if every candidate is valid and
  its request returns an error of the skip class, and \<open>None\<close> otherwise.
\<close>

fun skip_all :: "'w Env \<Rightarrow> Job \<Rightarrow> StrategyType list \<Rightarrow> 'w State \<Rightarrow> 'w State option" where
  "skip_all env job [] s = Some s"
| "skip_all env job (c # cs) s =
     (if \<not> IsValid c then None
      else
        (case handler_Request env (getHandler c) job s of
           (Ret (n, Some e), s1) \<Rightarrow> if e \<in> skip_class then skip_all env job cs s1 else None
         | (Ret (n, None), s1) \<Rightarrow> None
         | (Panic, s1) \<Rightarrow> None
         | (Deadlock, s1) \<Rightarrow> None))"

text \<open>The state in which the loop of a new operation starts, and the state with the Job registered.\<close>

definition after_createJob :: "'w State \<Rightarrow> 'w State" where
  "after_createJob s = s\<lparr>glob := snd (createJob (glob s))\<rparr>"

definition registered :: "Job \<Rightarrow> Handler \<Rightarrow> 'w State \<Rightarrow> 'w State" where
  "registered job h s =
     s\<lparr>mgr := (mgr s)\<lparr>jobs := AList.update (job_id job) (job\<lparr>job_h := Some h\<rparr>) (jobs (mgr s))\<rparr>\<rparr>"

definition deregistered :: "JobID \<Rightarrow> 'w State \<Rightarrow> 'w State" where
  "deregistered i s =
     s\<lparr>mgr := (mgr s)\<lparr>jobs := AList.delete i (jobs (mgr s))\<rparr>, glob := freeJobID i (glob s)\<rparr>"

text \<open>Every Job of a registry decompresses (the direction used is that of its parameters).\<close>

definition only_decompress :: "Job gomap \<Rightarrow> bool" where
  "only_decompress reg = (\<forall>kj \<in> set reg. jp_JobType (job_params (snd kj)) = DECOMPRESS)"

text \<open>The state after line 753 of a continuation: the registered Job has the new buffer.\<close>

definition buffer_replaced :: "byte list \<Rightarrow> JobParams \<Rightarrow> Job \<Rightarrow> 'w State \<Rightarrow> 'w State" where
  "buffer_replaced p jp cj s =
     s\<lparr>mgr := (mgr s)\<lparr>jobs := AList.update (jp_id jp) (cj\<lparr>job_p := p\<rparr>) (jobs (mgr s))\<rparr>\<rparr>"

text \<open>
  A world for examples: it counts the calls made into the libraries; every call of kind
  \<open>c\<close> returns \<open>f c\<close>, every \<^verbatim>\<open>Close\<close> of a release succeeds, both hardware
  libraries are installed.
\<close>

definition example_env :: "(ExtCall \<Rightarrow> ext_result) \<Rightarrow> nat Env" where
  "example_env f =
     \<lparr>ixl_Ready = (\<lambda>w. True), isal_Ready = (\<lambda>w. True),
      codec = (\<lambda>c job w. (f c, Suc w)), closer = (\<lambda>c i w. (None, Suc w))\<rparr>"

definition init_State :: "nat State" where
  "init_State = \<lparr>mgr = initManager, glob = init_Globals, world = 0\<rparr>"

definition example_params :: "Algorithm \<Rightarrow> Direction \<Rightarrow> JobParams" where
  "example_params alg dir =
     \<lparr>jp_a = alg, jp_level = 1, jp_id = 0, jp_JobType = dir,
      jp_w = (if dir = COMPRESS then Some 0 else None),
      jp_r = (if dir = COMPRESS then None else Some 0)\<rparr>"

text \<open>Library behaviours for examples: every call succeeds; one call fails.\<close>

definition all_succeed :: "ExtCall \<Rightarrow> ext_result" where
  "all_succeed c = (3, None)"

definition failing_write :: "ExtCall \<Rightarrow> ext_result" where
  "failing_write c = (if c = QatWriterWrite then (0, Some (External 7)) else (0, None))"


definition sink_reports_EOF :: "ExtCall \<Rightarrow> ext_result" where
  "sink_reports_EOF c = (if c = GzipWriterWrite then (0, Some EOF) else (0, None))"

text \<open>
  A QAT handler whose pool is full: eight decompress streams, of the jobs 1 to 8, each
  with its reader.
\<close>

definition reader_binding :: "JobID \<Rightarrow> QATJob" where
  "reader_binding i = \<lparr>qj_outBuf = DEFAULT_OUT_BUFFER_SZ, qj_b = False, qj_w = False,
     qj_r = True, qj_job = i, qj_mode = DIRECT\<rparr>"

definition full_QatHandler :: QatHandler where
  "full_QatHandler =
     \<lparr>qat_jobs = map (\<lambda>i. (i, reader_binding i)) [1, 2, 3, 4, 5, 6, 7, 8],
      qat_algs = QAT_ALGORITHMS\<rparr>"

text \<open>An IAA handler whose pool is full: eight writers, of the jobs 1 to 8; the mutex is free.\<close>

definition full_IAAHandler :: IAAHandler where
  "full_IAAHandler =
     \<lparr>iaa_jobs = map (\<lambda>i. (i, ())) [1, 2, 3, 4, 5, 6, 7, 8], iaa_readjobs = [],
      iaa_jobsLock = False, iaa_algs = IAA_ALGORITHMS\<rparr>"

text \<open>A Job as the Manager hands it to a handler, and a decompress Job bound to QAT.\<close>

definition example_job :: "JobID \<Rightarrow> Algorithm \<Rightarrow> Direction \<Rightarrow> Job" where
  "example_job i alg dir =
     \<lparr>job_id = i, job_p = [0, 0, 0, 0], job_JobType = 0, job_params = example_params alg dir,
      job_w = jp_w (example_params alg dir), job_r = jp_r (example_params alg dir),
      job_h = None\<rparr>"

definition stream_job :: "JobID \<Rightarrow> Job" where
  "stream_job i = (example_job i GZIP DECOMPRESS)\<lparr>job_h := Some QatH\<rparr>"

section \<open>The default policy\<close>

text \<open>
  C4, as stated: below the threshold the default policy lists QAT, then IAA, then ISAL.
  It does not: for an empty buffer the list starts with ISAL and ends with QAT.
\<close>

theorem C4_small_buffer_order_counterexample:
  "BufferSizePolicy \<lparr>BufferSize = 0, Strategies = strategyBank,
      pp_JobParams = \<lparr>jp_a = GZIP, jp_level = 1, jp_id = 0, jp_JobType = COMPRESS,
        jp_w = Some 0, jp_r = None\<rparr>\<rparr> = [ISAL, IAA, QAT]
   \<and> [ISAL, IAA, QAT] \<noteq> [QAT, IAA, ISAL]"
  by (simp add: BufferSizePolicy_def enum_defs)

text \<open>
  C4, amended: the default policy is a function of the buffer size alone; below the
  threshold of 1500 bytes it returns ISAL, IAA, QAT, and at or above the threshold it
  returns QAT, IAA, ISAL, the reverse of that order.
\<close>

theorem C4_default_policy_order:
  "BufferSizePolicy params =
     (if BufferSize params < 1500 then [ISAL, IAA, QAT] else [QAT, IAA, ISAL])
   \<and> [QAT, IAA, ISAL] = rev [ISAL, IAA, QAT]
   \<and> GetDefaultPolicy = BufferSizePolicy
   \<and> (BufferSize params = BufferSize params' \<longrightarrow>
        BufferSizePolicy params = BufferSizePolicy params')"
  by (simp add: BufferSizePolicy_def GetDefaultPolicy_def)

theorem C4_default_policy_order_witness:
  "BufferSize \<lparr>BufferSize = 1499, Strategies = [], pp_JobParams = \<lparr>jp_a = GZIP, jp_level = 1,
       jp_id = 0, jp_JobType = COMPRESS, jp_w = Some 0, jp_r = None\<rparr>\<rparr>
     = BufferSize \<lparr>BufferSize = 1499, Strategies = strategyBank, pp_JobParams = \<lparr>jp_a = ZSTD,
       jp_level = 3, jp_id = 7, jp_JobType = DECOMPRESS, jp_w = None, jp_r = Some 1\<rparr>\<rparr>
   \<and> BufferSizePolicy \<lparr>BufferSize = 1499, Strategies = [], pp_JobParams = \<lparr>jp_a = GZIP,
       jp_level = 1, jp_id = 0, jp_JobType = COMPRESS, jp_w = Some 0, jp_r = None\<rparr>\<rparr>
     = BufferSizePolicy \<lparr>BufferSize = 1499, Strategies = strategyBank, pp_JobParams = \<lparr>jp_a = ZSTD,
       jp_level = 3, jp_id = 7, jp_JobType = DECOMPRESS, jp_w = None, jp_r = Some 1\<rparr>\<rparr>"
proof -
  let ?p = "\<lparr>BufferSize = 1499, Strategies = [], pp_JobParams = \<lparr>jp_a = GZIP, jp_level = 1,
       jp_id = 0, jp_JobType = COMPRESS, jp_w = Some 0, jp_r = None\<rparr>\<rparr>"
  let ?q = "\<lparr>BufferSize = 1499, Strategies = strategyBank, pp_JobParams = \<lparr>jp_a = ZSTD,
       jp_level = 3, jp_id = 7, jp_JobType = DECOMPRESS, jp_w = None, jp_r = Some 1\<rparr>\<rparr>"
  have same: "BufferSize ?p = BufferSize ?q"
    by simp
  have "BufferSize ?p = BufferSize ?q \<longrightarrow> BufferSizePolicy ?p = BufferSizePolicy ?q"
    using C4_default_policy_order [of ?p ?q] by blast
  with same show ?thesis
    by blast
qed

section \<open>Job identities are minted in increasing order\<close>

lemma createJob_id: "job_id (fst (createJob g)) = nextID g + 1"
  and createJob_nextID: "nextID (snd (createJob g)) = nextID g + 1"
  and createJob_freeIDs: "freeIDs (snd (createJob g)) = freeIDs g"
  by (simp_all add: createJob_def new_Job_def Let_def)

lemma sint_succ_int64:
  fixes x :: "64 word"
  assumes "sint x < 2 ^ 63 - 1"
  shows "sint (x + 1) = sint x + 1"
proof -
  have "- (2 ^ 63) \<le> sint x"
    using sint_ge [of x] by simp
  with assms have "signed_take_bit 63 (sint x + 1) = sint x + 1"
    by (intro signed_take_bit_int_eq_self) auto
  then show ?thesis
    by (simp add: sint_word_ariths)
qed

lemma run_ids_nextID_only:
  "nextID g = nextID g' \<Longrightarrow> fst (run_ids ops g) = fst (run_ids ops g')"
proof (induction ops arbitrary: g g')
  case Nil
  then show ?case by simp
next
  case (Cons op ops)
  show ?case
  proof (cases op)
    case CreateJob
    have "nextID (snd (createJob g)) = nextID (snd (createJob g'))"
      using Cons.prems by (simp add: createJob_nextID)
    from Cons.IH [OF this] show ?thesis
      using Cons.prems CreateJob by (simp add: split_beta createJob_id)
  next
    case (FreeJobID i)
    have "nextID (freeJobID i g) = nextID (freeJobID i g')"
      using Cons.prems by (simp add: freeJobID_def)
    from Cons.IH [OF this] show ?thesis
      using FreeJobID by simp
  qed
qed

lemma run_ids_bounds:
  "sint (nextID g) + int (creations ops) < 2 ^ 63 \<Longrightarrow>
   (\<forall>i \<in> set (fst (run_ids ops g)). sint (nextID g) < sint i
        \<and> sint i \<le> sint (nextID g) + int (creations ops))
   \<and> sorted_wrt (\<lambda>a b. sint a < sint b) (fst (run_ids ops g))"
proof (induction ops arbitrary: g)
  case Nil
  then show ?case by simp
next
  case (Cons op ops)
  show ?case
  proof (cases op)
    case CreateJob
    let ?g1 = "snd (createJob g)"
    have small: "sint (nextID g) < 2 ^ 63 - 1"
      using Cons.prems CreateJob by simp
    have nxt: "sint (nextID ?g1) = sint (nextID g) + 1"
      using small by (simp add: createJob_nextID sint_succ_int64)
    have "sint (nextID ?g1) + int (creations ops) < 2 ^ 63"
      using Cons.prems CreateJob nxt by simp
    from Cons.IH [OF this] show ?thesis
      using CreateJob nxt by (auto simp: split_beta createJob_id createJob_nextID)
  next
    case (FreeJobID i)
    have "sint (nextID (freeJobID i g)) + int (creations ops) < 2 ^ 63"
      using Cons.prems FreeJobID by (simp add: freeJobID_def)
    from Cons.IH [OF this] show ?thesis
      using FreeJobID by (simp add: freeJobID_def)
  qed
qed

lemma strictly_sorted_distinct:
  "sorted_wrt (\<lambda>a b. sint a < sint b) (xs :: JobID list) \<Longrightarrow> distinct xs"
  by (induction xs) auto

lemma ids_of_creations_nth:
  "k < n \<Longrightarrow> fst (run_ids (replicate n CreateJob) g) ! k = nextID g + of_nat (Suc k)"
proof (induction n arbitrary: g k)
  case 0
  then show ?case by simp
next
  case (Suc n)
  show ?case
  proof (cases k)
    case 0
    then show ?thesis by (simp add: split_beta createJob_id)
  next
    case (Suc j)
    then have "j < n" using Suc.prems by simp
    from Suc.IH [OF this, of "snd (createJob g)"] show ?thesis
      using Suc by (simp add: split_beta createJob_nextID add.assoc)
  qed
qed

text \<open>
  C8, as stated: every call of \<^verbatim>\<open>createJob\<close> returns an identity greater than every
  identity returned before. The counter is an \<^verbatim>\<open>int64\<close> and the addition wraps: in a
  run of \<open>2\<^sup>6\<^sup>3\<close> calls from the initial state, the last call returns \<open>- 2\<^sup>6\<^sup>3\<close>, which
  is less than \<open>2\<^sup>6\<^sup>3 - 1\<close>, the identity returned by the call before it.
\<close>

theorem C8_counter_wraps_counterexample:
  "(let ids = fst (run_ids (replicate 9223372036854775808 CreateJob) init_Globals)
    in sint (ids ! 9223372036854775807) < sint (ids ! 9223372036854775806))"
  by (simp add: ids_of_creations_nth init_Globals_def)

text \<open>
  C8, amended: as long as the counter does not pass \<open>2\<^sup>6\<^sup>3 - 1\<close>, in every history of
  calls to \<^verbatim>\<open>createJob\<close> and \<^verbatim>\<open>freeJobID\<close> each call of \<^verbatim>\<open>createJob\<close> returns an
  identity strictly greater than the counter's starting value and than every identity
  returned before it, so the identities are pairwise distinct and none is reused. The
  free list is appended to by \<^verbatim>\<open>freeJobID\<close> and has no influence on the identities
  minted: \<^verbatim>\<open>createJob\<close> returns the counter plus one and leaves the free list alone.
\<close>

theorem C8_ids_strictly_increase:
  assumes "sint (nextID g) + int (creations ops) < 2 ^ 63"
  shows "sorted_wrt (\<lambda>a b. sint a < sint b) (fst (run_ids ops g))
    \<and> (\<forall>i \<in> set (fst (run_ids ops g)). sint (nextID g) < sint i)
    \<and> distinct (fst (run_ids ops g))
    \<and> fst (run_ids ops (g\<lparr>freeIDs := fs\<rparr>)) = fst (run_ids ops g)
    \<and> job_id (fst (createJob g)) = nextID g + 1
    \<and> freeIDs (snd (createJob g)) = freeIDs g
    \<and> freeJobID i g = g\<lparr>freeIDs := freeIDs g @ [i]\<rparr>"
proof -
  have sorted: "sorted_wrt (\<lambda>a b. sint a < sint b) (fst (run_ids ops g))"
    and above: "\<forall>i \<in> set (fst (run_ids ops g)). sint (nextID g) < sint i"
    using run_ids_bounds [OF assms] by blast+
  have "nextID (g\<lparr>freeIDs := fs\<rparr>) = nextID g"
    by simp
  then have indep: "fst (run_ids ops (g\<lparr>freeIDs := fs\<rparr>)) = fst (run_ids ops g)"
    by (rule run_ids_nextID_only)
  show ?thesis
    using sorted above indep strictly_sorted_distinct [OF sorted]
    by (simp add: createJob_id createJob_freeIDs freeJobID_def)
qed

theorem C8_ids_strictly_increase_witness:
  "sint (nextID init_Globals) + int (creations [CreateJob, FreeJobID 1, CreateJob]) < 2 ^ 63
   \<and> fst (run_ids [CreateJob, FreeJobID 1, CreateJob] init_Globals) = [1, 2]
   \<and> sorted_wrt (\<lambda>a b. sint a < sint b)
        (fst (run_ids [CreateJob, FreeJobID 1, CreateJob] init_Globals))
   \<and> distinct (fst (run_ids [CreateJob, FreeJobID 1, CreateJob] init_Globals))"
proof -
  have small: "sint (nextID init_Globals) + int (creations [CreateJob, FreeJobID 1, CreateJob])
      < 2 ^ 63"
    by (simp add: init_Globals_def)
  have ids: "fst (run_ids [CreateJob, FreeJobID 1, CreateJob] init_Globals) = [1, 2]"
    by (simp add: init_Globals_def createJob_def freeJobID_def new_Job_def Let_def)
  show ?thesis
    using small ids C8_ids_strictly_increase [OF small] by blast
qed

section \<open>The loop over the candidates\<close>

lemma handler_Request_frame:
  "jobs (mgr (snd (handler_Request env h job s))) = jobs (mgr s)"
  "glob (snd (handler_Request env h job s)) = glob s"
  "strategies (mgr (snd (handler_Request env h job s))) = strategies (mgr s)"
  "GlobalPolicy (mgr (snd (handler_Request env h job s))) = GlobalPolicy (mgr s)"
  by (cases h; simp add: handler_Request_def split_beta)+

lemma handler_Release_frame:
  "jobs (mgr (snd (handler_Release env h i s))) = jobs (mgr s)"
  "glob (snd (handler_Release env h i s)) = glob s"
  by (cases h; simp add: handler_Release_def split_beta)+

lemma skip_all_jobs:
  "skip_all env job cs s = Some s' \<Longrightarrow> jobs (mgr s') = jobs (mgr s) \<and> glob s' = glob s"
proof (induction cs arbitrary: s)
  case Nil
  then show ?case by simp
next
  case (Cons c cs)
  from Cons.prems obtain n e s1 where
    req: "handler_Request env (getHandler c) job s = (Ret (n, Some e), s1)"
    and rest: "skip_all env job cs s1 = Some s'"
    by (auto split: if_splits prod.splits result.splits option.splits)
  have "jobs (mgr s1) = jobs (mgr s) \<and> glob s1 = glob s"
    using handler_Request_frame [of env "getHandler c" job s] req by simp
  with Cons.IH [OF rest] show ?case by simp
qed

lemma skip_all_loop:
  "skip_all env job pre s = Some s' \<Longrightarrow>
   submit_loop env job (pre @ rest) s = submit_loop env job rest s'"
proof (induction pre arbitrary: s)
  case Nil
  then show ?case by simp
next
  case (Cons c cs)
  from Cons.prems obtain n e s1 where
    valid: "IsValid c"
    and req: "handler_Request env (getHandler c) job s = (Ret (n, Some e), s1)"
    and skip: "e \<in> skip_class"
    and rest: "skip_all env job cs s1 = Some s'"
    by (auto split: if_splits prod.splits result.splits option.splits)
  from skip have "e = ErrNotAvailable \<or> e = ErrUnsupported \<or> e = ErrNotInstalled"
    by (simp add: skip_class_def)
  then have "submit_loop env job ((c # cs) @ rest) s = submit_loop env job (cs @ rest) s1"
    using valid req by auto
  with Cons.IH [OF rest] show ?case by simp
qed

lemma SubmitWithPolicy_new:
  "map_of (jobs (mgr s)) (jp_id jp) = None \<or> jp_JobType jp \<noteq> DECOMPRESS \<Longrightarrow>
   SubmitWithPolicy env p jp policy s =
     submit_loop env (fresh_job p jp s) (policy (policy_params p jp s)) (after_createJob s)"
  by (auto simp: SubmitWithPolicy_def submit_new_def after_createJob_def Let_def
      split: option.splits)

lemma submit_loop_abort:
  assumes "IsValid c"
    and "handler_Request env (getHandler c) job s = (Ret (n, Some e), s1)"
    and "e \<notin> skip_class" and "e \<noteq> EOF"
  shows "submit_loop env job (c # cs) s = (Ret (0, job_id job, Some e), s1)"
  using assms by (auto simp: skip_class_def)

lemma submit_loop_success:
  assumes "IsValid c"
    and "handler_Request env (getHandler c) job s = (Ret (n, err), s1)"
    and "err = None \<or> err = Some EOF"
  shows "submit_loop env job (c # cs) s =
     (if jp_JobType (job_params job) = DECOMPRESS \<and> err = Some EOF
         \<or> jp_JobType (job_params job) = COMPRESS \<and> err = None
      then
        (case release_and_deregister env (getHandler c) (job_id job)
                (registered job (getHandler c) s1) of
           (Ret u, s3) \<Rightarrow> (Ret (n, job_id job, err), s3)
         | (Panic, s3) \<Rightarrow> (Panic, s3)
         | (Deadlock, s3) \<Rightarrow> (Deadlock, s3))
      else (Ret (n, job_id job, err), registered job (getHandler c) s1))"
  using assms by (auto simp: registered_def Let_def split: prod.splits result.splits)





lemmas handler_defs =
  handler_Request_def handler_Release_def getHandler_def
  DefaultHandler_Request_def DefaultHandler_Release_def default_compress_def deferred_Close_def
  IAAHandler_Request_def IAAHandler_Release_def
  ISALHandler_Request_def ISALHandler_Release_def
  QatHandler_Request_def QatHandler_Release_def qat_transfer_def newQatJob_def bind_QATJob_def
  findJob_def ready_def
  MAX_QAT_BINDINGS_def MAX_IAA_BINDINGS_def
  IAA_ALGORITHMS_def QAT_ALGORITHMS_def ISAL_ALGORITHMS_def DEFAULT_ALGORITHMS_def
  IsValid_def skip_class_def

lemmas example_defs =
  example_env_def init_State_def example_params_def initManager_def init_Globals_def
  NewQATHandler_def NewISALHandler_def NewIAAHandler_def NewDefaultHandler_def
  GetStrategies_def strategyBank_def GetDefaultPolicy_def
  fresh_job_def policy_params_def after_createJob_def createJob_def new_Job_def
  zero_JobParams_def freeJobID_def registered_def deregistered_def
  release_and_deregister_def all_succeed_def

text \<open>
  C1: in a new operation the candidates of the policy's list are tried in order. When
  the candidates before \<open>c\<close> have all been skipped and the request of \<open>c\<close> returns an
  error of the skip class, the call goes on with the candidates after \<open>c\<close>, in the state
  that request left; when it returns any other error except end-of-stream, the call
  returns that error with zero bytes and the state is the one that request left: no
  later candidate is asked.
\<close>

theorem C1_skip_then_continue_or_abort:
  assumes new: "map_of (jobs (mgr s)) (jp_id jp) = None \<or> jp_JobType jp \<noteq> DECOMPRESS"
    and order: "policy (policy_params p jp s) = pre @ c # post"
    and skipped: "skip_all env (fresh_job p jp s) pre (after_createJob s) = Some s2"
    and valid: "IsValid c"
    and req: "handler_Request env (getHandler c) (fresh_job p jp s) s2 = (Ret (n, Some e), s3)"
  shows "(e \<in> skip_class \<longrightarrow>
            SubmitWithPolicy env p jp policy s = submit_loop env (fresh_job p jp s) post s3)
       \<and> (e \<notin> skip_class \<and> e \<noteq> EOF \<longrightarrow>
            SubmitWithPolicy env p jp policy s
              = (Ret (0, job_id (fresh_job p jp s), Some e), s3))"
proof -
  let ?job = "fresh_job p jp s"
  have start: "SubmitWithPolicy env p jp policy s = submit_loop env ?job (c # post) s2"
    using SubmitWithPolicy_new [OF new] order skip_all_loop [OF skipped] by simp
  have "submit_loop env ?job (c # post) s2 = submit_loop env ?job post s3" if "e \<in> skip_class"
  proof -
    have "skip_all env ?job [c] s2 = Some s3"
      using valid req that by simp
    from skip_all_loop [OF this, of post] show ?thesis by simp
  qed
  moreover have "submit_loop env ?job (c # post) s2 = (Ret (0, job_id ?job, Some e), s3)"
    if "e \<notin> skip_class" and "e \<noteq> EOF"
    using submit_loop_abort [OF valid req that] .
  ultimately show ?thesis
    using start by simp
qed

theorem C1_skip_then_continue_or_abort_witness:
  "SubmitWithPolicy (example_env failing_write) [1, 2, 3] (example_params ZSTD COMPRESS)
      (\<lambda>params. [ISAL, QAT, DEFAULT]) init_State
   = (Ret (0, 1, Some (External 7)),
      snd (handler_Request (example_env failing_write) QatH
        (fresh_job [1, 2, 3] (example_params ZSTD COMPRESS) init_State)
        (after_createJob init_State)))"
proof -
  let ?env = "example_env failing_write"
  let ?jp = "example_params ZSTD COMPRESS"
  let ?job = "fresh_job [1, 2, 3] ?jp init_State"
  let ?s3 = "snd (handler_Request ?env QatH ?job (after_createJob init_State))"
  have new: "map_of (jobs (mgr init_State)) (jp_id ?jp) = None \<or> jp_JobType ?jp \<noteq> DECOMPRESS"
    by (simp add: example_defs)
  have order: "(\<lambda>params. [ISAL, QAT, DEFAULT]) (policy_params [1, 2, 3] ?jp init_State)
      = [ISAL] @ QAT # [DEFAULT]"
    by simp
  have skipped: "skip_all ?env ?job [ISAL] (after_createJob init_State)
      = Some (after_createJob init_State)"
    by (simp add: example_defs handler_defs enum_defs)
  have valid: "IsValid QAT"
    by (simp add: IsValid_def)
  have req: "handler_Request ?env (getHandler QAT) ?job (after_createJob init_State)
      = (Ret (0, Some (External 7)), ?s3)"
    by (simp add: example_defs handler_defs enum_defs failing_write_def)
  have hard: "External 7 \<notin> skip_class \<and> External 7 \<noteq> EOF"
    by (simp add: skip_class_def)
  have id: "job_id ?job = 1"
    by (simp add: example_defs)
  show ?thesis
    using C1_skip_then_continue_or_abort [OF new order skipped valid req] hard id
    by simp
qed

text \<open>
  C7: in a new operation in which every candidate of the policy's list is skipped, the
  call returns the error "all strategies failed" with zero bytes, and the registry is
  what it was before the call: the new Job has not been added to it.
\<close>

theorem C7_all_candidates_skipped:
  assumes new: "map_of (jobs (mgr s)) (jp_id jp) = None \<or> jp_JobType jp \<noteq> DECOMPRESS"
    and skipped: "skip_all env (fresh_job p jp s) (policy (policy_params p jp s))
                    (after_createJob s) = Some s2"
  shows "SubmitWithPolicy env p jp policy s
           = (Ret (0, job_id (fresh_job p jp s), Some errNoWorkingStrategies), s2)
       \<and> jobs (mgr s2) = jobs (mgr s)"
proof -
  have "submit_loop env (fresh_job p jp s) (policy (policy_params p jp s) @ []) (after_createJob s)
      = submit_loop env (fresh_job p jp s) [] s2"
    using skipped by (rule skip_all_loop)
  then have "SubmitWithPolicy env p jp policy s
      = (Ret (0, job_id (fresh_job p jp s), Some errNoWorkingStrategies), s2)"
    using SubmitWithPolicy_new [OF new] by simp
  moreover have "jobs (mgr s2) = jobs (mgr s)"
    using skip_all_jobs [OF skipped] by (simp add: after_createJob_def)
  ultimately show ?thesis by simp
qed

theorem C7_all_candidates_skipped_witness:
  "SubmitWithPolicy (example_env all_succeed) [1, 2, 3] (example_params ZSTD COMPRESS)
      (\<lambda>params. [ISAL, IAA]) init_State
     = (Ret (0, 1, Some errNoWorkingStrategies), after_createJob init_State)
   \<and> jobs (mgr (after_createJob init_State)) = []"
proof -
  let ?env = "example_env all_succeed"
  let ?jp = "example_params ZSTD COMPRESS"
  have new: "map_of (jobs (mgr init_State)) (jp_id ?jp) = None \<or> jp_JobType ?jp \<noteq> DECOMPRESS"
    by (simp add: example_defs)
  have skipped: "skip_all ?env (fresh_job [1, 2, 3] ?jp init_State)
      ((\<lambda>params. [ISAL, IAA]) (policy_params [1, 2, 3] ?jp init_State))
      (after_createJob init_State) = Some (after_createJob init_State)"
    by (simp add: example_defs handler_defs enum_defs)
  have id: "job_id (fresh_job [1, 2, 3] ?jp init_State) = 1"
    by (simp add: example_defs)
  have empty: "jobs (mgr init_State) = []"
    by (simp add: example_defs)
  show ?thesis
    using C7_all_candidates_skipped [OF new skipped] id empty by simp
qed

section \<open>The completion rule\<close>



section \<open>Continuations\<close>



section \<open>Releasing a job that has no binding\<close>

text \<open>
  C5, as stated: every handler answers the release of a job it never bound with a
  "job not found" error. The software handler does not: it keeps no state, and its
  \<^verbatim>\<open>Release\<close> returns \<^verbatim>\<open>nil\<close>, here for job 7 before any request was made.
\<close>

theorem C5_software_handler_counterexample:
  "handler_Release (example_env all_succeed) FallbackH 7 init_State = (Ret None, init_State)
   \<and> DefaultHandler_Release 7 NewDefaultHandler = None"
  by (simp add: handler_Release_def DefaultHandler_Release_def)

text \<open>
  C5, amended: the three hardware handlers answer the release of a job that has no
  binding in them with an error and change nothing: the IAA and the ISA-L handler with
  a new error "could not find the job", the QAT handler with \<^verbatim>\<open>ErrJobNotFound\<close>.
  The software handler returns \<^verbatim>\<open>nil\<close> for every identity.
\<close>

theorem C5_release_of_unbound_job:
  "(map_of (iaa_jobs ha) i = None \<longrightarrow>
      IAAHandler_Release env i ha w
        = (Ret (Some (ErrorString ''could not find the job'')), ha, w))
   \<and> (map_of (isal_jobs hi) i = None \<and> map_of (isal_readjobs hi) i = None \<longrightarrow>
      ISALHandler_Release env i hi w = (Some (ErrorString ''could not find the job''), hi, w))
   \<and> ((\<forall>kq \<in> set (qat_jobs hq). qj_job (snd kq) \<noteq> i) \<longrightarrow>
      QatHandler_Release env i hq w = (Some ErrJobNotFound, hq, w))
   \<and> DefaultHandler_Release i hf = None"
proof -
  have "QatHandler_Release env i hq w = (Some ErrJobNotFound, hq, w)"
    if "\<forall>kq \<in> set (qat_jobs hq). qj_job (snd kq) \<noteq> i"
  proof -
    have "List.find (\<lambda>kq. qj_job (snd kq) = i) (qat_jobs hq) = None"
      using that by (auto simp: find_None_iff)
    then show ?thesis
      by (simp add: QatHandler_Release_def findJob_def)
  qed
  then show ?thesis
    by (simp add: IAAHandler_Release_def ISALHandler_Release_def DefaultHandler_Release_def)
qed

theorem C5_release_of_unbound_job_witness:
  "IAAHandler_Release (example_env all_succeed) 7 NewIAAHandler 0
      = (Ret (Some (ErrorString ''could not find the job'')), NewIAAHandler, 0)
   \<and> ISALHandler_Release (example_env all_succeed) 7 NewISALHandler 0
      = (Some (ErrorString ''could not find the job''), NewISALHandler, 0)
   \<and> QatHandler_Release (example_env all_succeed) 9 full_QatHandler 0
      = (Some ErrJobNotFound, full_QatHandler, 0)"
proof -
  have a: "map_of (iaa_jobs NewIAAHandler) (7 :: JobID) = None"
    by (simp add: NewIAAHandler_def)
  have b: "map_of (isal_jobs NewISALHandler) (7 :: JobID) = None
      \<and> map_of (isal_readjobs NewISALHandler) (7 :: JobID) = None"
    by (simp add: NewISALHandler_def)
  have c: "\<forall>kq \<in> set (qat_jobs full_QatHandler). qj_job (snd kq) \<noteq> 9"
    by (simp add: full_QatHandler_def reader_binding_def)
  show ?thesis
    using a b c
      C5_release_of_unbound_job [of NewIAAHandler 7 "example_env all_succeed" 0 NewISALHandler
        full_QatHandler]
      C5_release_of_unbound_job [of NewIAAHandler 9 "example_env all_succeed" 0 NewISALHandler
        full_QatHandler]
    by blast
qed


section \<open>The bounded pools of the IAA and the QAT handler\<close>

lemma length_update_le: "length (AList.update k v al) \<le> Suc (length al)"
  by (induction al) auto

lemma newQatJob_bound:
  "length (qat_jobs h) \<le> MAX_QAT_BINDINGS \<Longrightarrow>
   length (qat_jobs (fst (snd (newQatJob env job mode h w)))) \<le> MAX_QAT_BINDINGS"
  using length_update_le [of "job_id job" _ "qat_jobs h"]
  by (cases mode)
    (auto simp: newQatJob_def bind_QATJob_def Let_def split_beta not_le
      intro: order_trans [OF length_update_le] simp flip: less_eq_Suc_le)

lemma qat_transfer_handler: "fst (snd (qat_transfer env job err h w)) = h"
  by (simp add: qat_transfer_def Let_def split_beta)

lemma QatHandler_Request_handler:
  "fst (snd (QatHandler_Request env job h w)) = h
   \<or> fst (snd (QatHandler_Request env job h w)) = fst (snd (newQatJob env job DIRECT h w))"
  by (simp add: QatHandler_Request_def Let_def split_beta qat_transfer_handler
      split: option.splits)

lemma QatHandler_Request_bound:
  "length (qat_jobs h) \<le> MAX_QAT_BINDINGS \<Longrightarrow>
   length (qat_jobs (fst (snd (QatHandler_Request env job h w)))) \<le> MAX_QAT_BINDINGS"
  using QatHandler_Request_handler [of env job h w] newQatJob_bound [of h env job DIRECT w]
  by auto

lemma QatHandler_Release_bound:
  "length (qat_jobs h) \<le> MAX_QAT_BINDINGS \<Longrightarrow>
   length (qat_jobs (fst (snd (QatHandler_Release env i h w)))) \<le> MAX_QAT_BINDINGS"
  using length_delete_le [of i "qat_jobs h"]
  by (auto simp: QatHandler_Release_def Let_def split_beta split: sum.splits)

lemma IAAHandler_Request_bound:
  "length (iaa_jobs h) \<le> MAX_IAA_BINDINGS \<Longrightarrow>
   length (iaa_jobs (fst (snd (IAAHandler_Request env job h w)))) \<le> MAX_IAA_BINDINGS"
  using length_update_le [of "job_id job" "()" "iaa_jobs h"]
  by (auto simp: IAAHandler_Request_def Let_def split_beta)

lemma IAAHandler_Release_bound:
  "length (iaa_jobs h) \<le> MAX_IAA_BINDINGS \<Longrightarrow>
   length (iaa_jobs (fst (snd (IAAHandler_Release env i h w)))) \<le> MAX_IAA_BINDINGS"
  using length_delete_le [of i "iaa_jobs h"]
  by (auto simp: IAAHandler_Release_def Let_def split_beta split: option.splits)

text \<open>
  What \<^verbatim>\<open>QatHandler.Request\<close> does for a job without a binding when the pool is
  full: \<^verbatim>\<open>newQatJob\<close> returns \<^verbatim>\<open>nil\<close> and \<^verbatim>\<open>ErrNotAvailable\<close>, and the
  next statement reads a field of the \<^verbatim>\<open>nil\<close> binding.
\<close>

lemma QatHandler_Request_unbound_at_cap_panics:
  assumes "contains (qat_algs h) (jp_a (job_params job))"
    and "map_of (qat_jobs h) (job_id job) = None"
    and "length (qat_jobs h) \<ge> MAX_QAT_BINDINGS"
    and "jp_JobType (job_params job) = COMPRESS \<or> jp_JobType (job_params job) = DECOMPRESS"
  shows "QatHandler_Request env job h w = (Panic, h, w)"
  using assms
  by (auto simp: QatHandler_Request_def newQatJob_def ready_def Let_def enum_defs)

text \<open>
  C6, as stated: every request that arrives while the pool is at its cap returns
  \<^verbatim>\<open>ErrNotAvailable\<close> and does no work. With the eight bindings of the QAT handler
  taken, a request of job 3, which holds one of them, reads from its stream (the world
  counts one library call) and returns 3 bytes and no error.
\<close>

theorem C6_bound_job_served_at_cap_counterexample:
  "length (qat_jobs full_QatHandler) = MAX_QAT_BINDINGS
   \<and> QatHandler_Request (example_env all_succeed) (stream_job 3) full_QatHandler 0
       = (Ret (3, None), full_QatHandler, 1)"
  by (simp add: example_defs handler_defs enum_defs full_QatHandler_def reader_binding_def
      stream_job_def example_job_def)

text \<open>
  C6, amended: the map \<^verbatim>\<open>jobs\<close> of the IAA handler and of the QAT handler never grows
  beyond the cap of 8 entries, whatever request or release is served. An IAA request
  that has passed the checks for the installed library and the supported algorithm,
  with the mutex free and the pool at the cap, returns \<^verbatim>\<open>ErrNotAvailable\<close> at once:
  the handler and the world are unchanged. \<^verbatim>\<open>newQatJob\<close> at the cap returns no
  binding and \<^verbatim>\<open>ErrNotAvailable\<close>, and changes nothing. A QAT request of a job that
  already has a binding goes on with that binding, whatever the size of the pool.
\<close>

theorem C6_bounded_pools:
  "(length (iaa_jobs ha) \<le> MAX_IAA_BINDINGS \<longrightarrow>
      length (iaa_jobs (fst (snd (IAAHandler_Request env job ha w)))) \<le> MAX_IAA_BINDINGS
      \<and> length (iaa_jobs (fst (snd (IAAHandler_Release env i ha w)))) \<le> MAX_IAA_BINDINGS)
   \<and> (length (qat_jobs hq) \<le> MAX_QAT_BINDINGS \<longrightarrow>
      length (qat_jobs (fst (snd (QatHandler_Request env job hq w)))) \<le> MAX_QAT_BINDINGS
      \<and> length (qat_jobs (fst (snd (newQatJob env job mode hq w)))) \<le> MAX_QAT_BINDINGS
      \<and> length (qat_jobs (fst (snd (QatHandler_Release env i hq w)))) \<le> MAX_QAT_BINDINGS)
   \<and> (ixl_Ready env w \<and> contains (iaa_algs ha) (jp_a (job_params job)) \<and> \<not> iaa_jobsLock ha
        \<and> length (iaa_jobs ha) \<ge> MAX_IAA_BINDINGS \<longrightarrow>
      IAAHandler_Request env job ha w = (Ret (0, Some ErrNotAvailable), ha, w))
   \<and> (length (qat_jobs hq) \<ge> MAX_QAT_BINDINGS \<longrightarrow>
      newQatJob env job mode hq w = ((None, Some ErrNotAvailable), hq, w))
   \<and> (contains (qat_algs hq) (jp_a (job_params job))
        \<and> map_of (qat_jobs hq) (job_id job) \<noteq> None \<longrightarrow>
      QatHandler_Request env job hq w = qat_transfer env job None hq w)
   \<and> MAX_QAT_BINDINGS = 8 \<and> MAX_IAA_BINDINGS = 8"
proof -
  have iaa_full: "IAAHandler_Request env job ha w = (Ret (0, Some ErrNotAvailable), ha, w)"
    if "ixl_Ready env w" "contains (iaa_algs ha) (jp_a (job_params job))" "\<not> iaa_jobsLock ha"
      "length (iaa_jobs ha) \<ge> MAX_IAA_BINDINGS"
    using that by (simp add: IAAHandler_Request_def Let_def)
  have qat_full: "newQatJob env job mode hq w = ((None, Some ErrNotAvailable), hq, w)"
    if "length (qat_jobs hq) \<ge> MAX_QAT_BINDINGS"
    using that by (simp add: newQatJob_def Let_def)
  have qat_bound: "QatHandler_Request env job hq w = qat_transfer env job None hq w"
    if "contains (qat_algs hq) (jp_a (job_params job))" "map_of (qat_jobs hq) (job_id job) \<noteq> None"
    using that by (auto simp: QatHandler_Request_def ready_def Let_def)
  show ?thesis
    using iaa_full qat_full qat_bound
      IAAHandler_Request_bound [of ha env job w] IAAHandler_Release_bound [of ha env i w]
      QatHandler_Request_bound [of hq env job w] newQatJob_bound [of hq env job mode w]
      QatHandler_Release_bound [of hq env i w]
    by (simp add: MAX_QAT_BINDINGS_def MAX_IAA_BINDINGS_def)
qed

theorem C6_bounded_pools_witness:
  "IAAHandler_Request (example_env all_succeed) (example_job 9 GZIP COMPRESS) full_IAAHandler 0
      = (Ret (0, Some ErrNotAvailable), full_IAAHandler, 0)
   \<and> newQatJob (example_env all_succeed) (example_job 9 GZIP COMPRESS) DIRECT full_QatHandler 0
      = ((None, Some ErrNotAvailable), full_QatHandler, 0)
   \<and> length (qat_jobs (fst (snd (QatHandler_Request (example_env all_succeed)
        (example_job 9 GZIP COMPRESS) full_QatHandler 0)))) \<le> MAX_QAT_BINDINGS
   \<and> length (iaa_jobs (fst (snd (IAAHandler_Request (example_env all_succeed)
        (example_job 9 GZIP COMPRESS) full_IAAHandler 0)))) \<le> MAX_IAA_BINDINGS"
proof -
  let ?env = "example_env all_succeed"
  let ?job = "example_job 9 GZIP COMPRESS"
  have iaa_full: "length (iaa_jobs full_IAAHandler) \<le> MAX_IAA_BINDINGS"
    "length (iaa_jobs full_IAAHandler) \<ge> MAX_IAA_BINDINGS"
    by (simp_all add: full_IAAHandler_def MAX_IAA_BINDINGS_def)
  have qat_full: "length (qat_jobs full_QatHandler) \<le> MAX_QAT_BINDINGS"
    "length (qat_jobs full_QatHandler) \<ge> MAX_QAT_BINDINGS"
    by (simp_all add: full_QatHandler_def MAX_QAT_BINDINGS_def)
  have served: "ixl_Ready ?env 0 \<and> contains (iaa_algs full_IAAHandler) (jp_a (job_params ?job))
      \<and> \<not> iaa_jobsLock full_IAAHandler"
    by (simp add: example_defs handler_defs enum_defs full_IAAHandler_def example_job_def)
  show ?thesis
    using iaa_full qat_full served
      C6_bounded_pools [of full_IAAHandler ?env ?job 0 9 full_QatHandler DIRECT]
    by blast
qed


section \<open>The default policy and the software fallback\<close>

lemma unsupported_everywhere:
  assumes tables: "qat_algs (qat (mgr s)) = QAT_ALGORITHMS"
      "isal_algs (isal (mgr s)) = ISAL_ALGORITHMS" "iaa_algs (iaa (mgr s)) = IAA_ALGORITHMS"
    and unsupported: "\<not> contains ISAL_ALGORITHMS (jp_a (job_params job))"
      "\<not> contains IAA_ALGORITHMS (jp_a (job_params job))"
      "\<not> contains QAT_ALGORITHMS (jp_a (job_params job))"
    and hw: "c = QAT \<or> c = IAA \<or> c = ISAL"
  shows "\<exists>e. e \<in> skip_class \<and> handler_Request env (getHandler c) job s = (Ret (0, Some e), s)"
proof -
  have in_class: "ErrUnsupported \<in> skip_class" "ErrNotInstalled \<in> skip_class"
    by (simp_all add: skip_class_def)
  have qat: "handler_Request env QatH job s = (Ret (0, Some ErrUnsupported), s)"
    using tables unsupported
    by (simp add: handler_Request_def QatHandler_Request_def ready_def Let_def)
  have iaa: "handler_Request env IaaH job s
      = (Ret (0, Some (if ixl_Ready env (world s) then ErrUnsupported else ErrNotInstalled)), s)"
    using tables unsupported
    by (cases "ixl_Ready env (world s)")
      (simp_all add: handler_Request_def IAAHandler_Request_def Let_def)
  have isal: "handler_Request env IsalH job s
      = (Ret (0, Some (if isal_Ready env (world s) then ErrUnsupported else ErrNotInstalled)), s)"
    using tables unsupported
    by (cases "isal_Ready env (world s)")
      (simp_all add: handler_Request_def ISALHandler_Request_def Let_def)
  have handlers: "getHandler QAT = QatH" "getHandler IAA = IaaH" "getHandler ISAL = IsalH"
    by (simp_all add: getHandler_def enum_defs)
  from hw consider "c = QAT" | "c = IAA" | "c = ISAL"
    by blast
  then show ?thesis
  proof cases
    case 1
    then show ?thesis
      using qat handlers(1) in_class(1) by simp
  next
    case 2
    have "(if ixl_Ready env (world s) then ErrUnsupported else ErrNotInstalled) \<in> skip_class"
      using in_class by simp
    then show ?thesis
      using 2 iaa handlers(2) by simp
  next
    case 3
    have "(if isal_Ready env (world s) then ErrUnsupported else ErrNotInstalled) \<in> skip_class"
      using in_class by simp
    then show ?thesis
      using 3 isal handlers(3) by simp
  qed
qed

lemma skip_all_unsupported:
  assumes tables: "qat_algs (qat (mgr s)) = QAT_ALGORITHMS"
      "isal_algs (isal (mgr s)) = ISAL_ALGORITHMS" "iaa_algs (iaa (mgr s)) = IAA_ALGORITHMS"
    and unsupported: "\<not> contains ISAL_ALGORITHMS (jp_a (job_params job))"
      "\<not> contains IAA_ALGORITHMS (jp_a (job_params job))"
      "\<not> contains QAT_ALGORITHMS (jp_a (job_params job))"
    and hw: "\<forall>c \<in> set cs. c = QAT \<or> c = IAA \<or> c = ISAL"
  shows "skip_all env job cs s = Some s"
  using hw
proof (induction cs)
  case Nil
  then show ?case by simp
next
  case (Cons c cs)
  then have c: "c = QAT \<or> c = IAA \<or> c = ISAL" by simp
  then have valid: "IsValid c" by (auto simp: IsValid_def)
  from unsupported_everywhere [OF tables unsupported c] obtain e where
    "e \<in> skip_class" "handler_Request env (getHandler c) job s = (Ret (0, Some e), s)"
    by blast
  then show ?case
    using valid Cons by simp
qed

text \<open>
  C10: the default policy never lists the software strategy, so none of its candidates
  resolves to the software handler. For a new operation submitted through
  \<^verbatim>\<open>SubmitJob\<close> under the default policy, with the capability tables the
  constructors set, whose algorithm is in none of the tables of ISA-L, IAA and QAT,
  the call returns the error "all strategies failed" with zero bytes; the state it
  leaves is the one after \<^verbatim>\<open>createJob\<close>, so no handler has changed anything and no
  call into a codec library has been made: the software handler has not been invoked.
  LZ4 is such an algorithm, and the table of the software handler contains it.
\<close>

theorem C10_default_policy_has_no_software_fallback:
  assumes new: "map_of (jobs (mgr s)) (jp_id jp) = None \<or> jp_JobType jp \<noteq> DECOMPRESS"
    and pol: "GlobalPolicy (mgr s) = GetDefaultPolicy"
    and tables: "qat_algs (qat (mgr s)) = QAT_ALGORITHMS"
      "isal_algs (isal (mgr s)) = ISAL_ALGORITHMS" "iaa_algs (iaa (mgr s)) = IAA_ALGORITHMS"
    and unsupported: "\<not> contains ISAL_ALGORITHMS (jp_a jp)"
      "\<not> contains IAA_ALGORITHMS (jp_a jp)" "\<not> contains QAT_ALGORITHMS (jp_a jp)"
  shows "DEFAULT \<notin> set (GetDefaultPolicy params)
     \<and> FallbackH \<notin> getHandler ` set (GetDefaultPolicy params)
     \<and> SubmitJob env p jp s
         = (Ret (0, job_id (fresh_job p jp s), Some errNoWorkingStrategies), after_createJob s)
     \<and> contains DEFAULT_ALGORITHMS LZ4
     \<and> \<not> contains ISAL_ALGORITHMS LZ4 \<and> \<not> contains IAA_ALGORITHMS LZ4
     \<and> \<not> contains QAT_ALGORITHMS LZ4"
proof -
  let ?job = "fresh_job p jp s"
  let ?cs = "GetDefaultPolicy (policy_params p jp s)"
  have hw: "\<forall>c \<in> set (GetDefaultPolicy q). c = QAT \<or> c = IAA \<or> c = ISAL" for q
    by (simp add: GetDefaultPolicy_def BufferSizePolicy_def)
  have no_default: "DEFAULT \<notin> set (GetDefaultPolicy params)"
    by (simp add: GetDefaultPolicy_def BufferSizePolicy_def enum_defs)
  have no_fallback: "FallbackH \<notin> getHandler ` set (GetDefaultPolicy params)"
    by (simp add: GetDefaultPolicy_def BufferSizePolicy_def getHandler_def enum_defs)
  have tables': "qat_algs (qat (mgr (after_createJob s))) = QAT_ALGORITHMS"
    "isal_algs (isal (mgr (after_createJob s))) = ISAL_ALGORITHMS"
    "iaa_algs (iaa (mgr (after_createJob s))) = IAA_ALGORITHMS"
    using tables by (simp_all add: after_createJob_def)
  have unsupported': "\<not> contains ISAL_ALGORITHMS (jp_a (job_params ?job))"
    "\<not> contains IAA_ALGORITHMS (jp_a (job_params ?job))"
    "\<not> contains QAT_ALGORITHMS (jp_a (job_params ?job))"
    using unsupported by (simp_all add: fresh_job_def)
  have "skip_all env ?job ?cs (after_createJob s) = Some (after_createJob s)"
    using skip_all_unsupported [OF tables' unsupported' hw] .
  from skip_all_loop [OF this, of "[]"]
  have "SubmitWithPolicy env p jp GetDefaultPolicy s
      = (Ret (0, job_id ?job, Some errNoWorkingStrategies), after_createJob s)"
    using SubmitWithPolicy_new [OF new] by simp
  then have "SubmitJob env p jp s
      = (Ret (0, job_id ?job, Some errNoWorkingStrategies), after_createJob s)"
    using pol by (simp add: SubmitJob_def)
  then show ?thesis
    using no_default no_fallback
    by (simp add: DEFAULT_ALGORITHMS_def ISAL_ALGORITHMS_def IAA_ALGORITHMS_def
        QAT_ALGORITHMS_def enum_defs)
qed

theorem C10_default_policy_has_no_software_fallback_witness:
  "SubmitJob (example_env all_succeed) [1, 2, 3] (example_params LZ4 COMPRESS) init_State
     = (Ret (0, 1, Some errNoWorkingStrategies), after_createJob init_State)
   \<and> world (after_createJob init_State) = 0"
proof -
  let ?jp = "example_params LZ4 COMPRESS"
  have new: "map_of (jobs (mgr init_State)) (jp_id ?jp) = None \<or> jp_JobType ?jp \<noteq> DECOMPRESS"
    by (simp add: example_defs)
  have pol: "GlobalPolicy (mgr init_State) = GetDefaultPolicy"
    by (simp add: init_State_def initManager_def)
  have tables: "qat_algs (qat (mgr init_State)) = QAT_ALGORITHMS"
    "isal_algs (isal (mgr init_State)) = ISAL_ALGORITHMS"
    "iaa_algs (iaa (mgr init_State)) = IAA_ALGORITHMS"
    by (simp_all add: init_State_def initManager_def NewQATHandler_def NewISALHandler_def
        NewIAAHandler_def)
  have unsupported: "\<not> contains ISAL_ALGORITHMS (jp_a ?jp)"
    "\<not> contains IAA_ALGORITHMS (jp_a ?jp)" "\<not> contains QAT_ALGORITHMS (jp_a ?jp)"
    by (simp_all add: example_params_def ISAL_ALGORITHMS_def IAA_ALGORITHMS_def
        QAT_ALGORITHMS_def enum_defs)
  have id: "job_id (fresh_job [1, 2, 3] ?jp init_State) = 1"
    by (simp add: example_defs)
  have quiet: "world (after_createJob init_State) = 0"
    by (simp add: after_createJob_def init_State_def)
  show ?thesis
    using C10_default_policy_has_no_software_fallback [OF new pol tables unsupported] id quiet
    by simp
qed

section \<open>Compress jobs in the registry\<close>

text \<open>
  C9 says that no compress Job is in the registry when a call has returned. The test
  of line 788 lets end-of-stream through for either direction, and the completion rule
  of line 794 releases a compress Job only when the error is \<^verbatim>\<open>nil\<close>. Here a gzip
  compression goes to the software handler and the sink answers the first write with
  \<^verbatim>\<open>io.EOF\<close>, which \<^verbatim>\<open>gzip.Writer.Write\<close> hands on: the call returns that error
  with job identity 1, and job 1, a compress Job, is still registered.
\<close>

theorem C9_compress_job_stays_registered:
  "fst (SubmitWithPolicy (example_env sink_reports_EOF) [1, 2, 3] (example_params GZIP COMPRESS)
          (\<lambda>params. [DEFAULT]) init_State) = Ret (0, 1, Some EOF)
   \<and> map_option (\<lambda>job. jp_JobType (job_params job))
        (map_of (jobs (mgr (snd (SubmitWithPolicy (example_env sink_reports_EOF) [1, 2, 3]
          (example_params GZIP COMPRESS) (\<lambda>params. [DEFAULT]) init_State)))) 1) = Some COMPRESS
   \<and> COMPRESS \<noteq> DECOMPRESS"
  by (simp add: SubmitWithPolicy_def submit_new_def example_defs handler_defs enum_defs
      sink_reports_EOF_def)

text \<open>
  How far the property holds: a call that returns keeps the registry free of compress
  Jobs whenever the direction is one of the two named ones and a compress operation
  does not return end-of-stream.
\<close>

lemma set_update_subset: "set (AList.update k v al) \<subseteq> insert (k, v) (set al)"
  by (induction al) auto

lemma set_delete_subset: "set (AList.delete k al) \<subseteq> set al"
  by (auto simp: AList.delete_eq)

lemma only_decompress_update:
  "only_decompress reg \<Longrightarrow> jp_JobType (job_params j) = DECOMPRESS \<Longrightarrow>
   only_decompress (AList.update k j reg)"
  using set_update_subset [of k j reg] by (auto simp: only_decompress_def)

lemma only_decompress_delete:
  "only_decompress reg \<Longrightarrow> only_decompress (AList.delete k reg)"
  using set_delete_subset [of k reg] by (auto simp: only_decompress_def)

lemma release_and_deregister_jobs:
  "release_and_deregister env h i s = (Ret u, s') \<Longrightarrow>
   jobs (mgr s') = AList.delete i (jobs (mgr s))"
  using handler_Release_frame(1) [of env h i s]
  by (auto simp: release_and_deregister_def split: prod.splits result.splits)

lemma submit_loop_only_decompress:
  assumes "only_decompress (jobs (mgr s))"
    and "submit_loop env job cs s = (Ret (n, i, err), s')"
    and "jp_JobType (job_params job) = COMPRESS \<longrightarrow> err \<noteq> Some EOF"
    and "jp_JobType (job_params job) = COMPRESS \<or> jp_JobType (job_params job) = DECOMPRESS"
  shows "only_decompress (jobs (mgr s'))"
  using assms
proof (induction cs arbitrary: s)
  case Nil
  then show ?case by simp
next
  case (Cons c cs)
  show ?case
  proof (cases "IsValid c")
    case False
    with Cons.prems show ?thesis by simp
  next
    case valid: True
    obtain r s1 where req: "handler_Request env (getHandler c) job s = (r, s1)"
      by (cases "handler_Request env (getHandler c) job s")
    have reg1: "jobs (mgr s1) = jobs (mgr s)"
      using handler_Request_frame(1) [of env "getHandler c" job s] req by simp
    then have inv1: "only_decompress (jobs (mgr s1))"
      using Cons.prems(1) by simp
    show ?thesis
    proof (cases r)
      case Panic
      with Cons.prems(2) valid req show ?thesis by simp
    next
      case Deadlock
      with Cons.prems(2) valid req show ?thesis by simp
    next
      case (Ret ne)
      obtain m e where ne: "ne = (m, e)" by (cases ne)
      show ?thesis
      proof (cases "e = Some ErrNotAvailable \<or> e = Some ErrUnsupported \<or> e = Some ErrNotInstalled")
        case skip: True
        then have "submit_loop env job cs s1 = (Ret (n, i, err), s')"
          using Cons.prems(2) valid req Ret ne by auto
        from Cons.IH [OF inv1 this Cons.prems(3,4)] show ?thesis .
      next
        case noskip: False
        show ?thesis
        proof (cases "e = None \<or> e = Some EOF")
          case False
          then have "s' = s1"
            using noskip Cons.prems(2) valid req Ret ne by auto
          with inv1 show ?thesis by simp
        next
          case ok: True
        let ?h = "getHandler c"
        let ?s2 = "registered job ?h s1"
        have loop: "submit_loop env job (c # cs) s =
           (if jp_JobType (job_params job) = DECOMPRESS \<and> e = Some EOF
               \<or> jp_JobType (job_params job) = COMPRESS \<and> e = None
            then
              (case release_and_deregister env ?h (job_id job) ?s2 of
                 (Ret u, s3) \<Rightarrow> (Ret (m, job_id job, e), s3)
               | (Panic, s3) \<Rightarrow> (Panic, s3)
               | (Deadlock, s3) \<Rightarrow> (Deadlock, s3))
            else (Ret (m, job_id job, e), ?s2))"
          using submit_loop_success [OF valid _ ok, of env job s m s1 cs] req Ret ne by simp
        note outcome = Cons.prems(2) [unfolded loop]
        have reg2: "jobs (mgr ?s2) = AList.update (job_id job) (job\<lparr>job_h := Some ?h\<rparr>) (jobs (mgr s1))"
          by (simp add: registered_def)
        show ?thesis
        proof (cases "jp_JobType (job_params job) = DECOMPRESS \<and> e = Some EOF
               \<or> jp_JobType (job_params job) = COMPRESS \<and> e = None")
          case completes: True
          obtain u where rd: "release_and_deregister env ?h (job_id job) ?s2 = (Ret u, s')"
            using outcome [unfolded if_P [OF completes]]
            by (auto split: prod.splits result.splits)
          have "jobs (mgr s') = AList.delete (job_id job) (jobs (mgr s1))"
            using release_and_deregister_jobs [OF rd] reg2 by (simp add: delete_update_same)
          with inv1 show ?thesis by (simp add: only_decompress_delete)
        next
          case stays: False
          have res: "s' = ?s2" "err = e"
            using outcome [unfolded if_not_P [OF stays]] by simp_all
          have "jp_JobType (job_params job) = DECOMPRESS"
            using stays ok res Cons.prems(3,4) by auto
          then show ?thesis
            using res reg2 inv1 by (simp add: only_decompress_update)
        qed
        qed
      qed
    qed
  qed
qed

lemma submit_continue_only_decompress:
  assumes inv: "only_decompress (jobs (mgr s))"
    and reg: "map_of (jobs (mgr s)) (jp_id jp) = Some cj"
    and ret: "submit_continue env p cj jp s = (Ret (n, i, err), s')"
  shows "only_decompress (jobs (mgr s'))"
proof -
  let ?cj = "cj\<lparr>job_p := p\<rparr>"
  let ?s1 = "buffer_replaced p jp cj s"
  have "(jp_id jp, cj) \<in> set (jobs (mgr s))"
    using reg by (rule map_of_SomeD)
  then have "jp_JobType (job_params ?cj) = DECOMPRESS"
    using inv by (auto simp: only_decompress_def)
  then have inv1: "only_decompress (jobs (mgr ?s1))"
    using inv by (simp add: buffer_replaced_def only_decompress_update)
  from ret obtain h where bound: "job_h cj = Some h"
    by (cases "job_h cj") (auto simp: submit_continue_def Let_def)
  obtain r s2 where req: "handler_Request env h ?cj ?s1 = (r, s2)"
    by (cases "handler_Request env h ?cj ?s1")
  have inv2: "only_decompress (jobs (mgr s2))"
    using handler_Request_frame(1) [of env h ?cj ?s1] req inv1 by simp
  from ret bound req obtain m e where r: "r = Ret (m, e)"
    by (cases r) (auto simp: submit_continue_def buffer_replaced_def Let_def)
  show ?thesis
  proof (cases "e = Some EOF")
    case True
    then obtain u where rd: "release_and_deregister env h (job_id cj) s2 = (Ret u, s')"
      using ret bound req r
      by (auto simp: submit_continue_def buffer_replaced_def Let_def
          split: prod.splits result.splits)
    from release_and_deregister_jobs [OF rd] inv2 show ?thesis
      by (simp add: only_decompress_delete)
  next
    case False
    then have "s' = s2"
      using ret bound req r by (simp add: submit_continue_def buffer_replaced_def Let_def)
    with inv2 show ?thesis by simp
  qed
qed

lemma SubmitWithPolicy_only_decompress:
  assumes inv: "only_decompress (jobs (mgr s))"
    and ret: "SubmitWithPolicy env p jp policy s = (Ret (n, i, err), s')"
    and no_eof: "jp_JobType jp = COMPRESS \<longrightarrow> err \<noteq> Some EOF"
    and dir: "jp_JobType jp = COMPRESS \<or> jp_JobType jp = DECOMPRESS"
  shows "only_decompress (jobs (mgr s'))"
proof (cases "map_of (jobs (mgr s)) (jp_id jp) \<noteq> None \<and> jp_JobType jp = DECOMPRESS")
  case True
  then obtain cj where reg: "map_of (jobs (mgr s)) (jp_id jp) = Some cj"
    by blast
  then have "submit_continue env p cj jp s = (Ret (n, i, err), s')"
    using ret True by (simp add: SubmitWithPolicy_def)
  from submit_continue_only_decompress [OF inv reg this] show ?thesis .
next
  case False
  then have new: "map_of (jobs (mgr s)) (jp_id jp) = None \<or> jp_JobType jp \<noteq> DECOMPRESS"
    by blast
  let ?job = "fresh_job p jp s"
  have loop: "submit_loop env ?job (policy (policy_params p jp s)) (after_createJob s)
      = (Ret (n, i, err), s')"
    using SubmitWithPolicy_new [OF new, of env p policy] ret by simp
  have params: "job_params ?job = jp"
    by (simp add: fresh_job_def)
  have inv1: "only_decompress (jobs (mgr (after_createJob s)))"
    using inv by (simp add: after_createJob_def)
  show ?thesis
    using submit_loop_only_decompress [OF inv1 loop] no_eof dir params by simp
qed

end
